theory Spec2Isabelle
  imports Complex_Main
begin

section \<open>Numbers and the crossfade curve\<close>

text \<open>
  The store computes with JavaScript numbers. They are modelled as real numbers; \<open>NaN\<close> and
  the infinities are not represented, except in the one place where the store divides by
  a number that can be zero (the progress of an animation frame, below).
  \<open>Math.round x\<close> is the nearest integer with ties upwards, \<open>floor (x + 1/2)\<close>;
  \<open>Math.pow x 1.5\<close> is \<open>x powr 1.5\<close> on the clamped argument, which lies in \<open>[0, 1]\<close>.
\<close>

definition Math_round :: "real \<Rightarrow> real" where
  "Math_round x = of_int \<lfloor>x + 1 / 2\<rfloor>"

datatype curve_kind = Linear | Smooth | Power

text \<open>\<open>getCrossfadeValue\<close>: the \<open>default\<close> branch of the switch is excluded by the type.\<close>

definition getCrossfadeValue :: "real \<Rightarrow> curve_kind \<Rightarrow> real" where
  "getCrossfadeValue progress0 curve =
     (let progress = max 0 (min 1 progress0)
      in case curve of
           Linear \<Rightarrow> progress
         | Smooth \<Rightarrow> progress * progress * (3 - 2 * progress)
         | Power \<Rightarrow> progress powr 1.5)"

section \<open>Data model of the audio store\<close>

datatype deck_id = A | B

datatype track_kind = spotify

text \<open>
  \<open>Track\<close>. The source field \<open>id\<close> is \<open>track_id\<close> here and \<open>type\<close> is \<open>track_type\<close>
  (its only value is \<open>'spotify'\<close>).
\<close>

record Track =
  track_id :: string
  title :: string
  artist :: string
  duration :: real
  albumArt :: "string option"
  spotifyUri :: string
  spotifyId :: string
  previewUrl :: "string option"
  track_type :: track_kind
  preparedStartTime :: real
  isPrepared :: bool
  preparationTimestamp :: real

record DeckState =
  track :: "Track option"
  isPlaying :: bool
  currentTime :: real
  volume :: real
  isActive :: bool
  isLoading :: bool
  lastActivated :: real
  lastPlayedPosition :: real

text \<open>
  \<open>AutoCrossfadeSettings\<close>. The source field \<open>duration\<close> (seconds of one crossfade) is
  \<open>crossfadeDuration\<close> here, to keep it apart from the track's \<open>duration\<close>.
\<close>

record AutoCrossfadeSettings =
  enabled :: bool
  crossfadeDuration :: real
  triggerTime :: real
  curve :: curve_kind
  autoActivateNext :: bool
  switchTiming :: real

datatype crossfade_direction = A_to_B | B_to_A

text \<open>
  \<open>AudioState\<close>, the data part. A gain node is represented by its gain value, \<open>None\<close> for
  \<open>null\<close>; \<open>audioContext\<close> records whether a context exists and \<open>positionUpdateInterval\<close>
  whether an interval handle is stored (the source only tests the handle for \<open>null\<close>).
\<close>

record AudioState =
  audioContext :: bool
  deckAGain :: "real option"
  deckBGain :: "real option"
  masterGain :: "real option"
  deckA :: DeckState
  deckB :: DeckState
  crossfaderPosition :: real
  autoCrossfade :: AutoCrossfadeSettings
  isCrossfading :: bool
  crossfadeStartTime :: real
  crossfadeDirection :: "crossfade_direction option"
  positionUpdateInterval :: bool

definition emptyDeck :: DeckState where
  "emptyDeck = \<lparr> track = None, isPlaying = False, currentTime = 0, volume = 0.8,
     isActive = False, isLoading = False, lastActivated = 0, lastPlayedPosition = 0 \<rparr>"

definition initialState :: AudioState where
  "initialState = \<lparr> audioContext = False, deckAGain = None, deckBGain = None,
     masterGain = None, deckA = emptyDeck, deckB = emptyDeck, crossfaderPosition = 0.5,
     autoCrossfade = \<lparr> enabled = True, crossfadeDuration = 8, triggerTime = 15,
       curve = Smooth, autoActivateNext = True, switchTiming = 0.75 \<rparr>,
     isCrossfading = False, crossfadeStartTime = 0, crossfadeDirection = None,
     positionUpdateInterval = False \<rparr>"

text \<open>
  The source writes every deck operation twice, once for \<open>'A'\<close> and once for \<open>'B'\<close>
  (\<open>deck === 'A' ? state.deckA : state.deckB\<close>, and a \<open>set\<close> that rebuilds \<open>deckA\<close> or
  \<open>deckB\<close> from the state current at the update). \<open>getDeck\<close> and \<open>updateDeck\<close> are the two
  halves of that pattern.
\<close>

fun other :: "deck_id \<Rightarrow> deck_id" where
  "other A = B"
| "other B = A"

fun getDeck :: "deck_id \<Rightarrow> AudioState \<Rightarrow> DeckState" where
  "getDeck A s = deckA s"
| "getDeck B s = deckB s"

fun updateDeck :: "deck_id \<Rightarrow> (DeckState \<Rightarrow> DeckState) \<Rightarrow> AudioState \<Rightarrow> AudioState" where
  "updateDeck A f s = s\<lparr>deckA := f (deckA s)\<rparr>"
| "updateDeck B f s = s\<lparr>deckB := f (deckB s)\<rparr>"

section \<open>Observable calls\<close>

text \<open>
  What the store does outside its own state is recorded as a trace. \<open>RemoteSetVolume d v\<close>
  is a volume \<open>v\<close> pushed to the Spotify player (through the SDK or, failing that, the Web
  API) on behalf of deck \<open>d\<close>; \<open>PlayTrackCall\<close> is the call of the Spotify store's
  \<open>playTrack\<close> and \<open>RemotePlay\<close> the play request that \<open>playTrack\<close> sends;
  \<open>ActivateDeckInvoked\<close> marks a call of \<open>activateDeck\<close> made by the crossfade animation.
\<close>

datatype trace_item =
    RemoteSetVolume deck_id real
  | PlayTrackCall string real
  | RemotePlay string real
  | RemoteSeek real
  | BeatSyncStart deck_id
  | BeatSyncStopAll
  | ActivateDeckInvoked deck_id bool


section \<open>The Spotify store's \<open>playTrack\<close>\<close>

text \<open>
  \<open>playTrack\<close> of the Spotify store returns without a request, and without an error, when
  the player is not ready (\<open>!deviceId || !isPlayerReady\<close>; an empty device id is falsy).
  Otherwise it makes the play request and rejects when the call throws (no valid token, or
  the request itself fails) or the response is not \<open>ok\<close>. The outcome of the Web API call
  is a parameter.
\<close>

record SpotifyPlayer =
  deviceId :: "string option"
  isPlayerReady :: bool

datatype api_reply = CallThrows | Response bool

datatype promise_result = Resolved | Rejected

definition playTrack ::
  "SpotifyPlayer \<Rightarrow> api_reply \<Rightarrow> string \<Rightarrow> real \<Rightarrow> promise_result \<times> trace_item list" where
  "playTrack sp reply trackUri positionMs =
     (if deviceId sp = None \<or> deviceId sp = Some [] \<or> \<not> isPlayerReady sp then (Resolved, [])
      else case reply of
             CallThrows \<Rightarrow> (Rejected, [])
           | Response ok \<Rightarrow>
               if ok then (Resolved, [RemotePlay trackUri positionMs])
               else (Rejected, [RemotePlay trackUri positionMs]))"

text \<open>
  The player is ready when \<open>playTrack\<close> passes its guard.
\<close>

definition playerReady :: "SpotifyPlayer \<Rightarrow> bool" where
  "playerReady sp = (deviceId sp \<noteq> None \<and> deviceId sp \<noteq> Some [] \<and> isPlayerReady sp)"

section \<open>Loading and preparing a deck\<close>

text \<open>
  The Spotify track object handed to \<open>loadSpotifyTrack\<close> is untyped in the source. The
  fields read are kept; \<open>sp_artists\<close> and \<open>sp_album_images\<close> are \<open>None\<close> when the object
  lacks them, in which case reading them throws and \<open>loadSpotifyTrack\<close> rethrows.
\<close>

record SpotifyTrackObject =
  sp_id :: string
  sp_name :: string
  sp_artists :: "string list option"
  sp_duration_ms :: real
  sp_uri :: string
  sp_preview_url :: "string option"
  sp_album_images :: "string list option"

datatype error = TypeError

fun join_names :: "string list \<Rightarrow> string" where
  "join_names [] = []"
| "join_names [x] = x"
| "join_names (x # y # ys) = x @ '', '' @ join_names (y # ys)"

text \<open>\<open>buildTrack\<close> is the \<open>Track\<close> literal that \<open>loadSpotifyTrack\<close> constructs.\<close>

definition buildTrack ::
  "SpotifyTrackObject \<Rightarrow> string list \<Rightarrow> string list \<Rightarrow> real \<Rightarrow> real \<Rightarrow> Track" where
  "buildTrack spotifyTrack names images startTimeMs now =
     \<lparr> track_id = sp_id spotifyTrack,
       title = sp_name spotifyTrack,
       artist = join_names names,
       duration = sp_duration_ms spotifyTrack / 1000,
       albumArt = (case images of [] \<Rightarrow> None | url # _ \<Rightarrow> Some url),
       spotifyUri = sp_uri spotifyTrack,
       spotifyId = sp_id spotifyTrack,
       previewUrl = sp_preview_url spotifyTrack,
       track_type = spotify,
       preparedStartTime = startTimeMs,
       isPrepared = True,
       preparationTimestamp = now \<rparr>"

definition loadSpotifyTrack ::
  "deck_id \<Rightarrow> SpotifyTrackObject \<Rightarrow> real \<Rightarrow> real \<Rightarrow> AudioState \<Rightarrow> error + AudioState" where
  "loadSpotifyTrack deck spotifyTrack startTimeMs now s =
     (case sp_album_images spotifyTrack of
        None \<Rightarrow> Inl TypeError
      | Some images \<Rightarrow>
          (case sp_artists spotifyTrack of
             None \<Rightarrow> Inl TypeError
           | Some names \<Rightarrow>
               Inr (updateDeck deck
                    (\<lambda>d. d\<lparr> track := Some (buildTrack spotifyTrack names images startTimeMs now),
                             isPlaying := False,
                             currentTime :=
                               (if isPlaying d then currentTime d else startTimeMs / 1000),
                             isLoading := False \<rparr>) s)))"

definition prepareDeck :: "deck_id \<Rightarrow> real \<Rightarrow> real \<Rightarrow> AudioState \<Rightarrow> AudioState" where
  "prepareDeck deck startTimeMs now s =
     (case track (getDeck deck s) of
        None \<Rightarrow> s
      | Some t \<Rightarrow>
          let updatedTrack = t\<lparr> preparedStartTime := startTimeMs, isPrepared := True,
                                preparationTimestamp := now \<rparr>
          in updateDeck deck
               (\<lambda>d. d\<lparr> track := Some updatedTrack,
                        currentTime :=
                          (if isActive d then currentTime d else startTimeMs / 1000) \<rparr>) s)"

section \<open>Activation\<close>

text \<open>
  \<open>activateDeck\<close> is asynchronous. It reads the store once (\<open>targetDeck\<close>), refuses a deck
  without a prepared track, sets \<open>isLoading\<close>, resolves the start position from the deck
  as read at the call, and awaits \<open>playTrack\<close>. When \<open>playTrack\<close> resolves, one \<open>set\<close>
  rewrites both decks from the state current at that moment; when it rejects, one \<open>set\<close>
  clears \<open>isLoading\<close>. The three updates are \<open>activateDeck_begin\<close>,
  \<open>activateDeck_commit\<close> and \<open>activateDeck_fail\<close>; \<open>activateDeck\<close> runs them in order with
  nothing in between.
\<close>

definition startPosition :: "bool \<Rightarrow> DeckState \<Rightarrow> Track \<Rightarrow> real" where
  "startPosition preservePosition targetDeck t =
     (if preservePosition then
        (if lastPlayedPosition targetDeck > 0
           then Math_round (lastPlayedPosition targetDeck * 1000)
         else if currentTime targetDeck > 0
           then Math_round (currentTime targetDeck * 1000)
         else preparedStartTime t)
      else preparedStartTime t)"

definition activateDeck_begin ::
  "deck_id \<Rightarrow> bool \<Rightarrow> AudioState \<Rightarrow> (AudioState \<times> string \<times> real) option" where
  "activateDeck_begin deck preservePosition s =
     (let targetDeck = getDeck deck s
      in case track targetDeck of
           None \<Rightarrow> None
         | Some t \<Rightarrow>
             if \<not> isPrepared t then None
             else Some (updateDeck deck (\<lambda>d. d\<lparr>isLoading := True\<rparr>) s,
                        spotifyUri t,
                        startPosition preservePosition targetDeck t))"

fun activateDeck_commit :: "deck_id \<Rightarrow> real \<Rightarrow> real \<Rightarrow> AudioState \<Rightarrow> AudioState" where
  "activateDeck_commit A startPositionMs now s =
     s\<lparr> deckA := (deckA s)\<lparr> isActive := True, isPlaying := True, isLoading := False,
                            lastActivated := now,
                            currentTime := startPositionMs / 1000 \<rparr>,
        deckB := (deckB s)\<lparr> isActive := False, isPlaying := False,
                            lastPlayedPosition :=
                              (if isActive (deckB s) then currentTime (deckB s)
                               else lastPlayedPosition (deckB s)) \<rparr> \<rparr>"
| "activateDeck_commit B startPositionMs now s =
     s\<lparr> deckB := (deckB s)\<lparr> isActive := True, isPlaying := True, isLoading := False,
                            lastActivated := now,
                            currentTime := startPositionMs / 1000 \<rparr>,
        deckA := (deckA s)\<lparr> isActive := False, isPlaying := False,
                            lastPlayedPosition :=
                              (if isActive (deckA s) then currentTime (deckA s)
                               else lastPlayedPosition (deckA s)) \<rparr> \<rparr>"

definition activateDeck_fail :: "deck_id \<Rightarrow> AudioState \<Rightarrow> AudioState" where
  "activateDeck_fail deck s = updateDeck deck (\<lambda>d. d\<lparr>isLoading := False\<rparr>) s"

definition startPositionTracking :: "AudioState \<Rightarrow> AudioState" where
  "startPositionTracking s = s\<lparr>positionUpdateInterval := True\<rparr>"

definition stopPositionTracking :: "AudioState \<Rightarrow> AudioState" where
  "stopPositionTracking s =
     (if positionUpdateInterval s then s\<lparr>positionUpdateInterval := False\<rparr> else s)"

text \<open>
  The result is the returned boolean, the store afterwards and the trace. \<open>now\<close> is the
  clock at the successful update (\<open>lastActivated\<close>).
\<close>

definition activateDeck ::
  "deck_id \<Rightarrow> bool \<Rightarrow> SpotifyPlayer \<Rightarrow> api_reply \<Rightarrow> real \<Rightarrow> AudioState
     \<Rightarrow> bool \<times> AudioState \<times> trace_item list" where
  "activateDeck deck preservePosition sp reply now s =
     (case activateDeck_begin deck preservePosition s of
        None \<Rightarrow> (False, s, [])
      | Some (s1, uri, startPositionMs) \<Rightarrow>
          (case playTrack sp reply uri startPositionMs of
             (Resolved, tr) \<Rightarrow>
               let s2 = activateDeck_commit deck startPositionMs now s1;
                   beat = (if isCrossfading s2 then [BeatSyncStart deck] else [])
               in (True, startPositionTracking s2,
                   PlayTrackCall uri startPositionMs # tr @ beat)
           | (Rejected, tr) \<Rightarrow>
               (False, activateDeck_fail deck s1, PlayTrackCall uri startPositionMs # tr)))"

section \<open>Volume and crossfader\<close>

definition hasSpotifyTrack :: "DeckState \<Rightarrow> bool" where
  "hasSpotifyTrack d = (case track d of None \<Rightarrow> False | Some t \<Rightarrow> track_type t = spotify)"

fun setGain :: "deck_id \<Rightarrow> real \<Rightarrow> AudioState \<Rightarrow> AudioState" where
  "setGain A v s = s\<lparr>deckAGain := map_option (\<lambda>_. v) (deckAGain s)\<rparr>"
| "setGain B v s = s\<lparr>deckBGain := map_option (\<lambda>_. v) (deckBGain s)\<rparr>"

definition setVolume :: "deck_id \<Rightarrow> real \<Rightarrow> AudioState \<Rightarrow> AudioState \<times> trace_item list" where
  "setVolume deck vol s =
     (let clampedVolume = max 0 (min 1 vol);
          currentDeck = getDeck deck s;
          crossfaderMix = (if deck = A then 1 - crossfaderPosition s else crossfaderPosition s);
          finalVolume = clampedVolume * crossfaderMix;
          pushed = (if hasSpotifyTrack currentDeck \<and> isActive currentDeck
                    then [RemoteSetVolume deck finalVolume] else [])
      in (updateDeck deck (\<lambda>d. d\<lparr>volume := clampedVolume\<rparr>) (setGain deck finalVolume s),
          pushed))"

definition setCrossfader :: "real \<Rightarrow> AudioState \<Rightarrow> AudioState \<times> trace_item list" where
  "setCrossfader position s =
     (let clampedPosition = max 0 (min 1 position);
          deckAMix = 1 - clampedPosition;
          deckBMix = clampedPosition;
          s1 = (if deckAGain s \<noteq> None \<and> deckBGain s \<noteq> None
                then s\<lparr> deckAGain := Some (volume (deckA s) * deckAMix),
                        deckBGain := Some (volume (deckB s) * deckBMix) \<rparr>
                else s);
          pushedA = (if hasSpotifyTrack (deckA s) \<and> isPlaying (deckA s)
                     then [RemoteSetVolume A (volume (deckA s) * deckAMix)] else []);
          pushedB = (if hasSpotifyTrack (deckB s) \<and> isPlaying (deckB s)
                     then [RemoteSetVolume B (volume (deckB s) * deckBMix)] else [])
      in (s1\<lparr>crossfaderPosition := clampedPosition\<rparr>, pushedA @ pushedB))"

definition initAudio_set :: "AudioState \<Rightarrow> AudioState" where
  "initAudio_set s = s\<lparr> audioContext := True, deckAGain := Some 0.8, deckBGain := Some 0.8,
                          masterGain := Some 0.8 \<rparr>"

definition initAudio :: "AudioState \<Rightarrow> AudioState \<times> trace_item list" where
  "initAudio s = setCrossfader 0.5 (initAudio_set s)"

definition cleanup_set :: "AudioState \<Rightarrow> AudioState" where
  "cleanup_set s = s\<lparr> audioContext := False, deckAGain := None, deckBGain := None,
                        masterGain := None, positionUpdateInterval := False,
                        deckA := emptyDeck, deckB := emptyDeck \<rparr>"

definition cleanup :: "AudioState \<Rightarrow> AudioState" where
  "cleanup s = cleanup_set (stopPositionTracking s)"

section \<open>Positions\<close>

definition setDeckPosition :: "deck_id \<Rightarrow> real \<Rightarrow> AudioState \<Rightarrow> AudioState" where
  "setDeckPosition deck positionMs s =
     updateDeck deck (\<lambda>d. d\<lparr>currentTime := positionMs / 1000\<rparr>) s"

text \<open>
  \<open>seekSpotifyTrack\<close>: the Spotify store's \<open>seekToPosition\<close> catches its own errors, so the
  branch that reverts the position is never taken.
\<close>

definition seekSpotifyTrack ::
  "deck_id \<Rightarrow> real \<Rightarrow> AudioState \<Rightarrow> AudioState \<times> trace_item list" where
  "seekSpotifyTrack deck positionMs s =
     (let currentDeck = getDeck deck s
      in if \<not> hasSpotifyTrack currentDeck then (s, [])
         else (updateDeck deck (\<lambda>d. d\<lparr>currentTime := positionMs / 1000\<rparr>) s,
               if isActive currentDeck then [RemoteSeek positionMs] else []))"

definition scrubTrack ::
  "deck_id \<Rightarrow> bool \<Rightarrow> real \<Rightarrow> AudioState \<Rightarrow> AudioState \<times> trace_item list" where
  "scrubTrack deck forward intensity s =
     (let currentDeck = getDeck deck s
      in case track currentDeck of
           None \<Rightarrow> (s, [])
         | Some t \<Rightarrow>
             let scrubAmount = intensity * 2;
                 directionMultiplier = (if forward then 1 else - 1);
                 newTime = max 0 (min (duration t)
                             (currentTime currentDeck + scrubAmount * directionMultiplier));
                 positionMs = Math_round (newTime * 1000)
             in if isActive currentDeck then seekSpotifyTrack deck positionMs s
                else (setDeckPosition deck positionMs s, []))"

section \<open>Auto-crossfade\<close>

text \<open>\<open>Partial<AutoCrossfadeSettings>\<close>: a field that is \<open>None\<close> is absent from the update.\<close>

record AutoCrossfadeSettingsPartial =
  p_enabled :: "bool option"
  p_duration :: "real option"
  p_triggerTime :: "real option"
  p_curve :: "curve_kind option"
  p_autoActivateNext :: "bool option"
  p_switchTiming :: "real option"

definition setAutoCrossfadeSettings ::
  "AutoCrossfadeSettingsPartial \<Rightarrow> AudioState \<Rightarrow> AudioState" where
  "setAutoCrossfadeSettings p s =
     (let c = autoCrossfade s
      in s\<lparr>autoCrossfade :=
            \<lparr> enabled = (case p_enabled p of None \<Rightarrow> enabled c | Some v \<Rightarrow> v),
              crossfadeDuration = (case p_duration p of None \<Rightarrow> crossfadeDuration c | Some v \<Rightarrow> v),
              triggerTime = (case p_triggerTime p of None \<Rightarrow> triggerTime c | Some v \<Rightarrow> v),
              curve = (case p_curve p of None \<Rightarrow> curve c | Some v \<Rightarrow> v),
              autoActivateNext =
                (case p_autoActivateNext p of None \<Rightarrow> autoActivateNext c | Some v \<Rightarrow> v),
              switchTiming = (case p_switchTiming p of None \<Rightarrow> switchTiming c | Some v \<Rightarrow> v) \<rparr>\<rparr>)"

text \<open>
  The closure of one transition: what \<open>startAutoCrossfade\<close> captures for its
  \<open>animateCrossfade\<close> callback. \<open>settings\<close> and \<open>targetDeck\<close> are the values read from the
  store when the transition started; \<open>hasActivated\<close> is the closure's local flag.
\<close>

record CrossfadeAnimation =
  fromDeck :: deck_id
  toDeck :: deck_id
  settings :: AutoCrossfadeSettings
  targetDeck :: DeckState
  startTime :: real
  hasActivated :: bool

text \<open>
  \<open>startAutoCrossfade\<close> returns the store and, when it started a transition, the animation
  it scheduled. \<open>now\<close> stands for both readings of the clock in the function.
\<close>

definition startAutoCrossfade ::
  "deck_id \<Rightarrow> deck_id \<Rightarrow> real \<Rightarrow> AudioState \<Rightarrow> AudioState \<times> CrossfadeAnimation option" where
  "startAutoCrossfade from to now s =
     (let sourceDeck = getDeck from s;
          target = getDeck to s
      in if track sourceDeck = None
            \<or> (case track target of None \<Rightarrow> True | Some t \<Rightarrow> \<not> isPrepared t)
         then (s, None)
         else if isCrossfading s then (s, None)
         else (s\<lparr> isCrossfading := True,
                   crossfadeStartTime := now,
                   crossfadeDirection := Some (if from = A then A_to_B else B_to_A) \<rparr>,
               Some \<lparr> fromDeck = from, toDeck = to, settings = autoCrossfade s,
                      targetDeck = target, startTime = now, hasActivated = False \<rparr>))"

definition stopAutoCrossfade :: "AudioState \<Rightarrow> AudioState \<times> trace_item list" where
  "stopAutoCrossfade s =
     (s\<lparr> isCrossfading := False, crossfadeStartTime := 0, crossfadeDirection := None \<rparr>,
      [BeatSyncStopAll])"

definition checkAutoCrossfadeTrigger ::
  "real \<Rightarrow> AudioState \<Rightarrow> AudioState \<times> CrossfadeAnimation option" where
  "checkAutoCrossfadeTrigger now s =
     (if \<not> enabled (autoCrossfade s) \<or> isCrossfading s then (s, None)
      else
        let active = (if isActive (deckA s) then Some (A, deckA s, B, deckB s)
                      else if isActive (deckB s) then Some (B, deckB s, A, deckA s)
                      else None)
        in case active of
             None \<Rightarrow> (s, None)
           | Some (activeDeckId, activeDeck, inactiveDeckId, inactiveDeck) \<Rightarrow>
               (case track activeDeck of
                  None \<Rightarrow> (s, None)
                | Some activeTrack \<Rightarrow>
                    (case track inactiveDeck of
                       None \<Rightarrow> (s, None)
                     | Some inactiveTrack \<Rightarrow>
                         if \<not> isPrepared inactiveTrack then (s, None)
                         else
                           let timeRemaining = duration activeTrack - currentTime activeDeck
                           in if timeRemaining \<le> triggerTime (autoCrossfade s)
                                 \<and> timeRemaining > 0
                              then startAutoCrossfade activeDeckId inactiveDeckId now s
                              else (s, None))))"

definition updateSpotifyPosition_set ::
  "deck_id \<Rightarrow> real \<Rightarrow> real \<Rightarrow> AudioState \<Rightarrow> AudioState" where
  "updateSpotifyPosition_set deck positionMs durationMs s =
     updateDeck deck
       (\<lambda>d. d\<lparr> currentTime := positionMs / 1000,
                track := map_option (\<lambda>t. t\<lparr>duration := durationMs / 1000\<rparr>) (track d) \<rparr>) s"

definition updateSpotifyPosition ::
  "real \<Rightarrow> real \<Rightarrow> deck_id option \<Rightarrow> real \<Rightarrow> AudioState
     \<Rightarrow> AudioState \<times> CrossfadeAnimation option" where
  "updateSpotifyPosition positionMs durationMs deckArg now s =
     (let detected =
            (case deckArg of
               Some d \<Rightarrow> Some d
             | None \<Rightarrow>
                 if hasSpotifyTrack (deckA s) \<and> isActive (deckA s) \<and> isPlaying (deckA s)
                   then Some A
                 else if hasSpotifyTrack (deckB s) \<and> isActive (deckB s) \<and> isPlaying (deckB s)
                   then Some B
                 else None)
      in case detected of
           None \<Rightarrow> (s, None)
         | Some deck \<Rightarrow>
             if \<not> isActive (getDeck deck s) then (s, None)
             else checkAutoCrossfadeTrigger now
                    (updateSpotifyPosition_set deck positionMs durationMs s))"

section \<open>The transition animation\<close>

text \<open>
  One call of \<open>animateCrossfade\<close> at clock \<open>now\<close>. \<open>progress\<close> is
  \<open>Math.min(elapsed / totalDuration, 1)\<close>. With \<open>totalDuration = 0\<close> the quotient is not a
  finite number: \<open>+Infinity\<close> gives progress 1, \<open>-Infinity\<close> stays \<open>-Infinity\<close> (clamped to 0
  by the curve, and below 1), and \<open>0 / 0\<close> is \<open>NaN\<close>, which the frame would write into the
  crossfader; that one case is outside the model and the frame is \<open>None\<close> there.
\<close>

datatype frame_progress = Progress real | NegInfinity | NaN

definition frameProgress :: "real \<Rightarrow> real \<Rightarrow> frame_progress" where
  "frameProgress elapsed totalDuration =
     (if totalDuration \<noteq> 0 then Progress (min (elapsed / totalDuration) 1)
      else if elapsed > 0 then Progress 1
      else if elapsed < 0 then NegInfinity
      else NaN)"

fun curveInput :: "frame_progress \<Rightarrow> real option" where
  "curveInput (Progress p) = Some p"
| "curveInput NegInfinity = Some 0"
| "curveInput NaN = None"

fun belowOne :: "frame_progress \<Rightarrow> bool" where
  "belowOne (Progress p) = (p < 1)"
| "belowOne NegInfinity = True"
| "belowOne NaN = False"

text \<open>
  The result is the closure afterwards, the store afterwards, the trace of the frame, and
  whether the frame requested another one (\<open>requestAnimationFrame\<close>). The \<open>await\<close> of
  \<open>activateDeck\<close> is run to its end inside the frame: the next frame is requested only
  after it.
\<close>

definition animateCrossfade ::
  "real \<Rightarrow> SpotifyPlayer \<Rightarrow> api_reply \<Rightarrow> CrossfadeAnimation \<Rightarrow> AudioState
     \<Rightarrow> (CrossfadeAnimation \<times> AudioState \<times> trace_item list \<times> bool) option" where
  "animateCrossfade now sp reply anim s =
     (let c = settings anim;
          switchPoint = crossfadeDuration c * switchTiming c;
          totalDuration = crossfadeDuration c * 1000;
          switchTime = switchPoint * 1000;
          elapsed = now - startTime anim;
          progress = frameProgress elapsed totalDuration
      in case curveInput progress of
           None \<Rightarrow> None
         | Some p \<Rightarrow>
             let fadeValue = getCrossfadeValue p (curve c);
                 newPosition = (if fromDeck anim = A then fadeValue else 1 - fadeValue);
                 (s1, tr1) = setCrossfader newPosition s;
                 (anim2, s2, tr2) =
                   (if \<not> hasActivated anim \<and> elapsed \<ge> switchTime \<and> autoActivateNext c
                       \<and> \<not> isActive (targetDeck anim)
                    then
                      let (ok, s', tr) = activateDeck (toDeck anim) False sp reply now s1
                      in (anim\<lparr>hasActivated := True\<rparr>, s',
                          ActivateDeckInvoked (toDeck anim) False # tr)
                    else (anim, s1, []))
             in if belowOne progress then Some (anim2, s2, tr1 @ tr2, True)
                else
                  let (s3, tr3) = stopAutoCrossfade s2
                  in Some (anim2, s3, tr1 @ tr2 @ tr3, False))"

section \<open>Steps of the store\<close>

text \<open>
  A step is one operation of the store run to its next suspension point. The asynchronous
  operations are split where they await: \<open>activateDeck\<close> into \<open>ActivateBegin\<close>, then
  \<open>ActivateCommit\<close> or \<open>ActivateFail\<close> once \<open>playTrack\<close> has settled, and \<open>playPause\<close> on an
  active deck into the remote pause or resume and, after it, the update of \<open>isPlaying\<close>
  (\<open>PlayPauseSet\<close>). Steps of different operations may interleave in any order, so the
  completing steps are not tied to the step that started them.
\<close>

datatype store_event =
    InitAudio
  | Cleanup
  | SetCrossfader real
  | SetVolume deck_id real
  | LoadSpotifyTrack deck_id SpotifyTrackObject real real
  | PrepareDeck deck_id real real
  | ActivateBegin deck_id bool
  | ActivateCommit deck_id real real
  | ActivateFail deck_id
  | PlayPauseSet deck_id bool
  | StartPositionTracking
  | StopPositionTracking
  | UpdateSpotifyPosition real real "deck_id option" real
  | SetDeckPosition deck_id real
  | SeekSpotifyTrack deck_id real
  | ScrubTrack deck_id bool real
  | SetAutoCrossfadeSettings AutoCrossfadeSettingsPartial
  | StartAutoCrossfade deck_id deck_id real
  | StopAutoCrossfade
  | CheckAutoCrossfadeTrigger real

fun apply_event :: "store_event \<Rightarrow> AudioState \<Rightarrow> AudioState" where
  "apply_event InitAudio s = fst (initAudio s)"
| "apply_event Cleanup s = cleanup s"
| "apply_event (SetCrossfader position) s = fst (setCrossfader position s)"
| "apply_event (SetVolume deck vol) s = fst (setVolume deck vol s)"
| "apply_event (LoadSpotifyTrack deck spotifyTrack startTimeMs now) s =
     (case loadSpotifyTrack deck spotifyTrack startTimeMs now s of
        Inl _ \<Rightarrow> s | Inr s' \<Rightarrow> s')"
| "apply_event (PrepareDeck deck startTimeMs now) s = prepareDeck deck startTimeMs now s"
| "apply_event (ActivateBegin deck preservePosition) s =
     (case activateDeck_begin deck preservePosition s of
        None \<Rightarrow> s | Some (s1, _, _) \<Rightarrow> s1)"
| "apply_event (ActivateCommit deck startPositionMs now) s =
     activateDeck_commit deck startPositionMs now s"
| "apply_event (ActivateFail deck) s = activateDeck_fail deck s"
| "apply_event (PlayPauseSet deck playing) s =
     updateDeck deck (\<lambda>d. d\<lparr>isPlaying := playing\<rparr>) s"
| "apply_event StartPositionTracking s = startPositionTracking s"
| "apply_event StopPositionTracking s = stopPositionTracking s"
| "apply_event (UpdateSpotifyPosition positionMs durationMs deckArg now) s =
     fst (updateSpotifyPosition positionMs durationMs deckArg now s)"
| "apply_event (SetDeckPosition deck positionMs) s = setDeckPosition deck positionMs s"
| "apply_event (SeekSpotifyTrack deck positionMs) s = fst (seekSpotifyTrack deck positionMs s)"
| "apply_event (ScrubTrack deck forward intensity) s = fst (scrubTrack deck forward intensity s)"
| "apply_event (SetAutoCrossfadeSettings p) s = setAutoCrossfadeSettings p s"
| "apply_event (StartAutoCrossfade from to now) s = fst (startAutoCrossfade from to now s)"
| "apply_event StopAutoCrossfade s = fst (stopAutoCrossfade s)"
| "apply_event (CheckAutoCrossfadeTrigger now) s = fst (checkAutoCrossfadeTrigger now s)"

fun apply_events :: "store_event list \<Rightarrow> AudioState \<Rightarrow> AudioState" where
  "apply_events [] s = s"
| "apply_events (e # es) s = apply_events es (apply_event e s)"

inductive reachable :: "AudioState \<Rightarrow> bool" where
  reachable_initial: "reachable initialState"
| reachable_step: "reachable s \<Longrightarrow> reachable (apply_event e s)"

text \<open>
  A transition's animation: frames at the given clock readings, each preceded by any
  steps of the store that happen between two frames. The result lists, frame by frame,
  the clock and the trace of the frame; the run ends with the frame that requests no
  further one.
\<close>

fun runAnimation ::
  "(store_event list \<times> real \<times> SpotifyPlayer \<times> api_reply) list \<Rightarrow> CrossfadeAnimation
     \<Rightarrow> AudioState \<Rightarrow> (real \<times> trace_item list) list" where
  "runAnimation [] anim s = []"
| "runAnimation ((between, now, sp, reply) # rest) anim s =
     (case animateCrossfade now sp reply anim (apply_events between s) of
        None \<Rightarrow> []
      | Some (anim', s', tr, again) \<Rightarrow>
          (now, tr) # (if again then runAnimation rest anim' s' else []))"

text \<open>
  Calls that may try to start a transition: the trigger check and a direct
  \<open>startAutoCrossfade\<close> (the crossfader's button).
\<close>

datatype trigger_call = CheckTrigger real | StartCall deck_id deck_id real

fun runTriggerCalls ::
  "trigger_call list \<Rightarrow> AudioState \<Rightarrow> AudioState \<times> CrossfadeAnimation list" where
  "runTriggerCalls [] s = (s, [])"
| "runTriggerCalls (c # cs) s =
     (let (s1, started) =
            (case c of
               CheckTrigger now \<Rightarrow> checkAutoCrossfadeTrigger now s
             | StartCall from to now \<Rightarrow> startAutoCrossfade from to now s);
          (s2, more) = runTriggerCalls cs s1
      in (s2, (case started of None \<Rightarrow> [] | Some a \<Rightarrow> [a]) @ more))"

section \<open>Properties of store states\<close>

text \<open>
  The central invariant: at most one deck is active. \<open>activeFlags\<close> is the pair of the two
  \<open>isActive\<close> flags. \<open>deck_ok\<close> says that a deck's track, if any, is prepared and that a
  deck without a track is not loading.
\<close>

definition at_most_one_active :: "AudioState \<Rightarrow> bool" where
  "at_most_one_active s = (\<not> (isActive (deckA s) \<and> isActive (deckB s)))"

definition activeFlags :: "AudioState \<Rightarrow> bool \<times> bool" where
  "activeFlags s = (isActive (deckA s), isActive (deckB s))"

definition deck_ok :: "DeckState \<Rightarrow> bool" where
  "deck_ok d = (case track d of None \<Rightarrow> \<not> isLoading d | Some t \<Rightarrow> isPrepared t)"

definition decks_ok :: "AudioState \<Rightarrow> bool" where
  "decks_ok s = (deck_ok (deckA s) \<and> deck_ok (deckB s))"

text \<open>
  The trigger condition in the words of the specification, for \<open>d\<close> the active deck:
  auto-crossfade is enabled, no transition is in flight, \<open>d\<close> is the one active deck and has
  a track, the other deck has a prepared track, and the time remaining on \<open>d\<close> is positive
  and at most \<open>triggerTime\<close>. \<open>startedTransition\<close> is the outcome of starting the transition
  from \<open>d\<close> to the other deck.
\<close>

definition triggerCondition :: "AudioState \<Rightarrow> deck_id \<Rightarrow> bool" where
  "triggerCondition s d =
     (enabled (autoCrossfade s) \<and> \<not> isCrossfading s
      \<and> isActive (getDeck d s) \<and> \<not> isActive (getDeck (other d) s)
      \<and> (case track (getDeck d s) of
            None \<Rightarrow> False
          | Some t \<Rightarrow>
              0 < duration t - currentTime (getDeck d s)
              \<and> duration t - currentTime (getDeck d s) \<le> triggerTime (autoCrossfade s))
      \<and> (case track (getDeck (other d) s) of None \<Rightarrow> False | Some u \<Rightarrow> isPrepared u))"

definition startedTransition :: "deck_id \<Rightarrow> real \<Rightarrow> AudioState \<Rightarrow> AudioState \<times> CrossfadeAnimation option" where
  "startedTransition d now s =
     (s\<lparr> isCrossfading := True, crossfadeStartTime := now,
          crossfadeDirection := Some (if d = A then A_to_B else B_to_A) \<rparr>,
      Some \<lparr> fromDeck = d, toDeck = other d, settings = autoCrossfade s,
             targetDeck = getDeck (other d) s, startTime = now, hasActivated = False \<rparr>)"

text \<open>
  The crossfader mix of a deck at a crossfader position: \<open>1 - position\<close> for deck A and
  \<open>position\<close> for deck B.
\<close>

definition crossfaderMix :: "deck_id \<Rightarrow> real \<Rightarrow> real" where
  "crossfaderMix d position = (if d = A then 1 - position else position)"

text \<open>
  Reading traces: the activations invoked by the animation, with the clock of their frame;
  the calls of \<open>playTrack\<close>; the trace and the store of one frame. \<open>handoffDue\<close> is the
  animation's condition for the handoff apart from its \<open>hasActivated\<close> flag, and
  \<open>sameTransition\<close> relates two values of one transition's closure.
\<close>

fun isActivation :: "trace_item \<Rightarrow> bool" where
  "isActivation (ActivateDeckInvoked _ _) = True"
| "isActivation _ = False"

definition activations :: "(real \<times> trace_item list) list \<Rightarrow> (real \<times> trace_item) list" where
  "activations frameLog = concat (map (\<lambda>(now, tr). map (Pair now) (filter isActivation tr)) frameLog)"

fun isPlayTrackCall :: "trace_item \<Rightarrow> bool" where
  "isPlayTrackCall (PlayTrackCall _ _) = True"
| "isPlayTrackCall _ = False"

fun frameTrace ::
  "(CrossfadeAnimation \<times> AudioState \<times> trace_item list \<times> bool) option \<Rightarrow> trace_item list" where
  "frameTrace None = []"
| "frameTrace (Some (_, _, tr, _)) = tr"

fun frameStore ::
  "(CrossfadeAnimation \<times> AudioState \<times> trace_item list \<times> bool) option \<Rightarrow> AudioState option" where
  "frameStore None = None"
| "frameStore (Some (_, s, _, _)) = Some s"

definition handoffDue :: "real \<Rightarrow> CrossfadeAnimation \<Rightarrow> bool" where
  "handoffDue now anim =
     (now - startTime anim
        \<ge> switchTiming (settings anim) * crossfadeDuration (settings anim) * 1000
      \<and> autoActivateNext (settings anim) \<and> \<not> isActive (targetDeck anim))"

definition sameTransition :: "CrossfadeAnimation \<Rightarrow> CrossfadeAnimation \<Rightarrow> bool" where
  "sameTransition a b =
     (fromDeck a = fromDeck b \<and> toDeck a = toDeck b \<and> settings a = settings b
      \<and> targetDeck a = targetDeck b \<and> startTime a = startTime b)"

section \<open>Example states\<close>

text \<open>
  A session used for the concrete instances below: a track of 180 s is loaded on deck A and
  activated (\<open>stateActiveA\<close>), a second track is loaded on deck B (\<open>stateReady\<close>), and deck A
  plays up to a position (\<open>statePlayingAt\<close>). At 166 s the trigger check starts the
  transition from A to B (\<open>stateCrossfading\<close>, whose animation is \<open>exampleAnimation\<close>).
  In a second course deck B is activated while deck A plays at 42.3 s
  (\<open>stateAfterActivatingB\<close>), deck A is given the cue point 5000 ms and scrubbed to 7 s,
  and deck B plays up to 190 s (\<open>stateResumable\<close>); the trigger check at clock 20 starts the transition back from
  B to A (\<open>stateReturning\<close>, animation \<open>returnAnimation\<close>).
\<close>

definition exampleSpotifyTrack :: SpotifyTrackObject where
  "exampleSpotifyTrack = \<lparr> sp_id = ''t1'', sp_name = ''First'', sp_artists = Some [''Ann'', ''Bo''],
     sp_duration_ms = 180000, sp_uri = ''spotify:track:t1'', sp_preview_url = None,
     sp_album_images = Some [] \<rparr>"

definition secondSpotifyTrack :: SpotifyTrackObject where
  "secondSpotifyTrack = \<lparr> sp_id = ''t2'', sp_name = ''Second'', sp_artists = Some [''Cy''],
     sp_duration_ms = 200000, sp_uri = ''spotify:track:t2'', sp_preview_url = None,
     sp_album_images = Some [''img''] \<rparr>"

definition readyPlayer :: SpotifyPlayer where
  "readyPlayer = \<lparr> deviceId = Some ''dev'', isPlayerReady = True \<rparr>"

definition notReadyPlayer :: SpotifyPlayer where
  "notReadyPlayer = \<lparr> deviceId = None, isPlayerReady = False \<rparr>"

definition exampleTrack :: Track where
  "exampleTrack = buildTrack exampleSpotifyTrack [''Ann'', ''Bo''] [] 0 0"

definition secondTrack :: Track where
  "secondTrack = buildTrack secondSpotifyTrack [''Cy''] [''img''] 0 2"

definition stateLoadedA :: AudioState where
  "stateLoadedA = initialState\<lparr>deckA := emptyDeck\<lparr>track := Some exampleTrack\<rparr>\<rparr>"

definition stateActiveA :: AudioState where
  "stateActiveA = apply_events
     [LoadSpotifyTrack A exampleSpotifyTrack 0 0, ActivateBegin A False, ActivateCommit A 0 1]
     initialState"

definition statePausedA :: AudioState where
  "statePausedA = apply_event (PlayPauseSet A False) stateActiveA"

definition stateReady :: AudioState where
  "stateReady = apply_event (LoadSpotifyTrack B secondSpotifyTrack 0 2) stateActiveA"

definition statePlayingAt :: "real \<Rightarrow> AudioState" where
  "statePlayingAt positionMs = apply_event (SetDeckPosition A positionMs) stateReady"

definition stateAfterActivatingB :: AudioState where
  "stateAfterActivatingB =
     fst (snd (activateDeck B False readyPlayer (Response True) 9 (statePlayingAt 42300)))"

definition recuedTrack :: Track where
  "recuedTrack = exampleTrack\<lparr> preparedStartTime := 5000, isPrepared := True,
     preparationTimestamp := 11 \<rparr>"

definition stateResumable :: AudioState where
  "stateResumable =
     apply_events [PrepareDeck A 5000 11, SetDeckPosition A 7000, SetDeckPosition B 190000]
       stateAfterActivatingB"

definition stateReturning :: AudioState where
  "stateReturning = fst (checkAutoCrossfadeTrigger 20 stateResumable)"

definition returnAnimation :: CrossfadeAnimation where
  "returnAnimation = \<lparr> fromDeck = B, toDeck = A, settings = autoCrossfade initialState,
     targetDeck = deckA stateResumable, startTime = 20, hasActivated = False \<rparr>"

definition returnFrames :: "(store_event list \<times> real \<times> SpotifyPlayer \<times> api_reply) list" where
  "returnFrames = [([], 3020, readyPlayer, Response True),
                   ([], 6020, readyPlayer, Response True),
                   ([], 8020, readyPlayer, Response True)]"

definition exampleAnimation :: CrossfadeAnimation where
  "exampleAnimation = \<lparr> fromDeck = A, toDeck = B, settings = autoCrossfade initialState,
     targetDeck = emptyDeck\<lparr>track := Some secondTrack\<rparr>, startTime = 0, hasActivated = False \<rparr>"

definition stateCrossfading :: AudioState where
  "stateCrossfading = fst (checkAutoCrossfadeTrigger 0 (statePlayingAt 166000))"

definition stateStopped :: AudioState where
  "stateStopped = fst (stopAutoCrossfade stateCrossfading)"

section \<open>Steps and the two deck records\<close>

text \<open>
  Most operations leave both \<open>isActive\<close> flags and the property \<open>deck_ok\<close> of both decks
  as they are; the lemmas below say so operation by operation, and \<open>step_flags\<close> and
  \<open>step_decks_ok\<close> collect them for a step.
\<close>

lemma getDeck_updateDeck:
  "getDeck d (updateDeck d' f s) = (if d = d' then f (getDeck d s) else getDeck d s)"
  by (cases d; cases d') simp_all

lemma activeFlags_updateDeck:
  "isActive (f (getDeck d s)) = isActive (getDeck d s) \<Longrightarrow>
     activeFlags (updateDeck d f s) = activeFlags s"
  by (cases d) (simp_all add: activeFlags_def)

lemma decks_ok_updateDeck:
  "decks_ok s \<Longrightarrow> (deck_ok (getDeck d s) \<Longrightarrow> deck_ok (f (getDeck d s))) \<Longrightarrow>
     decks_ok (updateDeck d f s)"
  by (cases d) (simp_all add: decks_ok_def)

lemma decks_ok_getDeck: "decks_ok s \<Longrightarrow> deck_ok (getDeck d s)"
  by (cases d) (simp_all add: decks_ok_def)

lemma setCrossfader_decks:
  "deckA (fst (setCrossfader p s)) = deckA s" "deckB (fst (setCrossfader p s)) = deckB s"
  by (simp_all add: setCrossfader_def Let_def)

lemma initAudio_decks:
  "deckA (fst (initAudio s)) = deckA s" "deckB (fst (initAudio s)) = deckB s"
  by (simp_all add: initAudio_def setCrossfader_decks initAudio_set_def)

lemma setGain_decks: "deckA (setGain d v s) = deckA s" "deckB (setGain d v s) = deckB s"
  by (cases d; simp)+

lemma getDeck_setGain: "getDeck d (setGain d' v s) = getDeck d s"
  by (cases d) (simp_all add: setGain_decks)

lemma setVolume_state:
  "\<exists>g. fst (setVolume d v s) =
     updateDeck d (\<lambda>x. x\<lparr>volume := max 0 (min 1 v)\<rparr>) (setGain d g s)"
  unfolding setVolume_def Let_def fst_conv by (rule exI) (rule refl)

lemma activeFlags_setGain: "activeFlags (setGain d v s) = activeFlags s"
  by (simp add: activeFlags_def setGain_decks)

lemma decks_ok_setGain: "decks_ok (setGain d v s) = decks_ok s"
  by (simp add: decks_ok_def setGain_decks)

lemma setVolume_flags: "activeFlags (fst (setVolume d v s)) = activeFlags s"
proof -
  obtain g where "fst (setVolume d v s) =
     updateDeck d (\<lambda>x. x\<lparr>volume := max 0 (min 1 v)\<rparr>) (setGain d g s)"
    using setVolume_state by blast
  then show ?thesis
    by (simp add: activeFlags_updateDeck activeFlags_setGain)
qed

lemma deck_ok_volume: "deck_ok (x\<lparr>volume := v\<rparr>) = deck_ok x"
  by (simp add: deck_ok_def split: option.splits)

lemma setVolume_ok: "decks_ok s \<Longrightarrow> decks_ok (fst (setVolume d v s))"
proof -
  assume ok: "decks_ok s"
  obtain g where "fst (setVolume d v s) =
     updateDeck d (\<lambda>x. x\<lparr>volume := max 0 (min 1 v)\<rparr>) (setGain d g s)"
    using setVolume_state by blast
  then show ?thesis using ok
    by (simp add: decks_ok_updateDeck decks_ok_setGain deck_ok_volume)
qed

lemma buildTrack_prepared:
  "isPrepared (buildTrack sp names images ms now)"
  "preparedStartTime (buildTrack sp names images ms now) = ms"
  by (simp_all add: buildTrack_def)

lemma loadSpotifyTrack_shape:
  "loadSpotifyTrack d sp ms now s = Inr s' \<Longrightarrow>
     \<exists>names images.
         s' = updateDeck d (\<lambda>x. x\<lparr> track := Some (buildTrack sp names images ms now),
                 isPlaying := False,
                 currentTime := (if isPlaying x then currentTime x else ms / 1000),
                 isLoading := False \<rparr>) s"
  by (auto simp: loadSpotifyTrack_def split: option.splits)

lemma loadSpotifyTrack_flags:
  "loadSpotifyTrack d sp ms now s = Inr s' \<Longrightarrow> activeFlags s' = activeFlags s"
  by (drule loadSpotifyTrack_shape) (auto simp: activeFlags_updateDeck)

lemma loadSpotifyTrack_ok:
  "loadSpotifyTrack d sp ms now s = Inr s' \<Longrightarrow> decks_ok s \<Longrightarrow> decks_ok s'"
  by (drule loadSpotifyTrack_shape)
     (auto intro!: decks_ok_updateDeck simp: deck_ok_def buildTrack_prepared)

lemma prepareDeck_flags: "activeFlags (prepareDeck d ms now s) = activeFlags s"
  by (simp add: prepareDeck_def Let_def activeFlags_updateDeck split: option.splits)

lemma prepareDeck_ok: "decks_ok s \<Longrightarrow> decks_ok (prepareDeck d ms now s)"
  by (auto simp: prepareDeck_def Let_def deck_ok_def intro!: decks_ok_updateDeck split: option.splits)

lemma activateDeck_begin_shape:
  "activateDeck_begin d p s = Some (s1, uri, ms) \<Longrightarrow>
     \<exists>t. track (getDeck d s) = Some t \<and> isPrepared t \<and> uri = spotifyUri t
        \<and> ms = startPosition p (getDeck d s) t
        \<and> s1 = updateDeck d (\<lambda>x. x\<lparr>isLoading := True\<rparr>) s"
  by (auto simp: activateDeck_begin_def Let_def split: option.splits if_splits)

lemma activateDeck_begin_flags:
  "activateDeck_begin d p s = Some (s1, uri, ms) \<Longrightarrow> activeFlags s1 = activeFlags s"
  by (drule activateDeck_begin_shape) (auto simp: activeFlags_updateDeck)

lemma activateDeck_begin_ok:
  "activateDeck_begin d p s = Some (s1, uri, ms) \<Longrightarrow> decks_ok s \<Longrightarrow> decks_ok s1"
  by (drule activateDeck_begin_shape) (auto intro!: decks_ok_updateDeck simp: deck_ok_def)

lemma activateDeck_commit_active:
  "isActive (getDeck d (activateDeck_commit d ms now s))"
  "\<not> isActive (getDeck (other d) (activateDeck_commit d ms now s))"
  by (cases d; simp)+

lemma activateDeck_commit_amo: "at_most_one_active (activateDeck_commit d ms now s)"
  by (cases d) (simp_all add: at_most_one_active_def)

lemma activateDeck_commit_ok: "decks_ok s \<Longrightarrow> decks_ok (activateDeck_commit d ms now s)"
  by (cases d) (auto simp: decks_ok_def deck_ok_def split: option.splits)

lemma activateDeck_fail_flags: "activeFlags (activateDeck_fail d s) = activeFlags s"
  by (simp add: activateDeck_fail_def activeFlags_updateDeck)

lemma activateDeck_fail_ok: "decks_ok s \<Longrightarrow> decks_ok (activateDeck_fail d s)"
  by (auto simp: activateDeck_fail_def deck_ok_def intro!: decks_ok_updateDeck split: option.splits)

lemma playPauseSet_flags:
  "activeFlags (updateDeck d (\<lambda>x. x\<lparr>isPlaying := b\<rparr>) s) = activeFlags s"
  by (simp add: activeFlags_updateDeck)

lemma playPauseSet_ok:
  "decks_ok s \<Longrightarrow> decks_ok (updateDeck d (\<lambda>x. x\<lparr>isPlaying := b\<rparr>) s)"
  by (auto intro!: decks_ok_updateDeck simp: deck_ok_def split: option.splits)

lemma positionTracking_decks:
  "deckA (startPositionTracking s) = deckA s" "deckB (startPositionTracking s) = deckB s"
  "deckA (stopPositionTracking s) = deckA s" "deckB (stopPositionTracking s) = deckB s"
  by (simp_all add: startPositionTracking_def stopPositionTracking_def)

lemma cleanup_decks: "deckA (cleanup s) = emptyDeck" "deckB (cleanup s) = emptyDeck"
  by (simp_all add: cleanup_def cleanup_set_def)

lemma emptyDeck_facts: "\<not> isActive emptyDeck" "deck_ok emptyDeck"
  by (simp_all add: emptyDeck_def deck_ok_def)

lemma startAutoCrossfade_decks:
  "deckA (fst (startAutoCrossfade f t now s)) = deckA s"
  "deckB (fst (startAutoCrossfade f t now s)) = deckB s"
  by (simp_all add: startAutoCrossfade_def Let_def)

lemma stopAutoCrossfade_decks:
  "deckA (fst (stopAutoCrossfade s)) = deckA s" "deckB (fst (stopAutoCrossfade s)) = deckB s"
  by (simp_all add: stopAutoCrossfade_def)

lemma checkAutoCrossfadeTrigger_decks:
  "deckA (fst (checkAutoCrossfadeTrigger now s)) = deckA s"
  "deckB (fst (checkAutoCrossfadeTrigger now s)) = deckB s"
  by (simp_all add: checkAutoCrossfadeTrigger_def Let_def startAutoCrossfade_decks
        split: option.splits)

lemma setAutoCrossfadeSettings_decks:
  "deckA (setAutoCrossfadeSettings p s) = deckA s"
  "deckB (setAutoCrossfadeSettings p s) = deckB s"
  by (simp_all add: setAutoCrossfadeSettings_def Let_def)

lemma setDeckPosition_flags: "activeFlags (setDeckPosition d ms s) = activeFlags s"
  by (simp add: setDeckPosition_def activeFlags_updateDeck)

lemma deck_ok_currentTime: "deck_ok (x\<lparr>currentTime := v\<rparr>) = deck_ok x"
  by (simp add: deck_ok_def split: option.splits)

lemma setDeckPosition_ok: "decks_ok s \<Longrightarrow> decks_ok (setDeckPosition d ms s)"
  by (simp add: setDeckPosition_def decks_ok_updateDeck deck_ok_currentTime)

lemma seekSpotifyTrack_flags: "activeFlags (fst (seekSpotifyTrack d ms s)) = activeFlags s"
  by (simp add: seekSpotifyTrack_def Let_def activeFlags_updateDeck)

lemma seekSpotifyTrack_ok: "decks_ok s \<Longrightarrow> decks_ok (fst (seekSpotifyTrack d ms s))"
  by (simp add: seekSpotifyTrack_def Let_def decks_ok_updateDeck deck_ok_currentTime)

lemma scrubTrack_flags: "activeFlags (fst (scrubTrack d fw i s)) = activeFlags s"
  by (simp add: scrubTrack_def Let_def seekSpotifyTrack_flags setDeckPosition_flags
        split: option.splits)

lemma scrubTrack_ok: "decks_ok s \<Longrightarrow> decks_ok (fst (scrubTrack d fw i s))"
  by (simp add: scrubTrack_def Let_def seekSpotifyTrack_ok setDeckPosition_ok
        split: option.splits)

lemma updateSpotifyPosition_set_flags:
  "activeFlags (updateSpotifyPosition_set d p du s) = activeFlags s"
  by (simp add: updateSpotifyPosition_set_def activeFlags_updateDeck)

lemma updateSpotifyPosition_set_ok:
  "decks_ok s \<Longrightarrow> decks_ok (updateSpotifyPosition_set d p du s)"
  by (auto simp: updateSpotifyPosition_set_def deck_ok_def intro!: decks_ok_updateDeck
        split: option.splits)

lemma activeFlags_cong:
  "deckA s' = deckA s \<Longrightarrow> deckB s' = deckB s \<Longrightarrow> activeFlags s' = activeFlags s"
  by (simp add: activeFlags_def)

lemma decks_ok_cong:
  "deckA s' = deckA s \<Longrightarrow> deckB s' = deckB s \<Longrightarrow> decks_ok s' = decks_ok s"
  by (simp add: decks_ok_def)

lemma updateSpotifyPosition_flags:
  "activeFlags (fst (updateSpotifyPosition p du da now s)) = activeFlags s"
  by (simp add: updateSpotifyPosition_def Let_def updateSpotifyPosition_set_flags
        activeFlags_cong [OF checkAutoCrossfadeTrigger_decks] split: option.splits)

lemma updateSpotifyPosition_ok:
  "decks_ok s \<Longrightarrow> decks_ok (fst (updateSpotifyPosition p du da now s))"
  by (simp add: updateSpotifyPosition_def Let_def updateSpotifyPosition_set_ok
        decks_ok_cong [OF checkAutoCrossfadeTrigger_decks] split: option.splits)

lemma step_flags:
  "(\<forall>d p n. e \<noteq> ActivateCommit d p n) \<Longrightarrow> e \<noteq> Cleanup \<Longrightarrow>
     activeFlags (apply_event e s) = activeFlags s"
proof (cases e)
  case InitAudio
  then show ?thesis by (simp add: activeFlags_cong [OF initAudio_decks])
next
  case (SetCrossfader x)
  then show ?thesis by (simp add: activeFlags_cong [OF setCrossfader_decks])
next
  case (SetVolume d v)
  then show ?thesis by (simp add: setVolume_flags)
next
  case (LoadSpotifyTrack d sp ms now)
  then show ?thesis by (simp add: loadSpotifyTrack_flags split: sum.splits)
next
  case (PrepareDeck d ms now)
  then show ?thesis by (simp add: prepareDeck_flags)
next
  case (ActivateBegin d p)
  then show ?thesis by (auto simp: activateDeck_begin_flags split: option.splits)
next
  case (ActivateFail d)
  then show ?thesis by (simp add: activateDeck_fail_flags)
next
  case (PlayPauseSet d b)
  then show ?thesis by (simp add: playPauseSet_flags)
next
  case StartPositionTracking
  then show ?thesis by (simp add: activeFlags_def positionTracking_decks)
next
  case StopPositionTracking
  then show ?thesis by (simp add: activeFlags_def positionTracking_decks)
next
  case (UpdateSpotifyPosition p du da now)
  then show ?thesis by (simp add: updateSpotifyPosition_flags)
next
  case (SetDeckPosition d ms)
  then show ?thesis by (simp add: setDeckPosition_flags)
next
  case (SeekSpotifyTrack d ms)
  then show ?thesis by (simp add: seekSpotifyTrack_flags)
next
  case (ScrubTrack d fw i)
  then show ?thesis by (simp add: scrubTrack_flags)
next
  case (SetAutoCrossfadeSettings p)
  then show ?thesis by (simp add: activeFlags_cong [OF setAutoCrossfadeSettings_decks])
next
  case (StartAutoCrossfade f t now)
  then show ?thesis by (simp add: activeFlags_cong [OF startAutoCrossfade_decks])
next
  case StopAutoCrossfade
  then show ?thesis by (simp add: activeFlags_cong [OF stopAutoCrossfade_decks])
next
  case (CheckAutoCrossfadeTrigger now)
  then show ?thesis by (simp add: activeFlags_cong [OF checkAutoCrossfadeTrigger_decks])
qed simp_all

lemma step_decks_ok:
  assumes ok: "decks_ok s"
  shows "decks_ok (apply_event e s)"
proof (cases e)
  case InitAudio
  with ok show ?thesis by (simp add: decks_ok_cong [OF initAudio_decks])
next
  case Cleanup
  then show ?thesis by (simp add: decks_ok_def cleanup_decks emptyDeck_facts)
next
  case (SetCrossfader x)
  with ok show ?thesis by (simp add: decks_ok_cong [OF setCrossfader_decks])
next
  case (SetVolume d v)
  with ok show ?thesis by (simp add: setVolume_ok)
next
  case (LoadSpotifyTrack d sp ms now)
  with ok show ?thesis by (simp add: loadSpotifyTrack_ok split: sum.splits)
next
  case (PrepareDeck d ms now)
  with ok show ?thesis by (simp add: prepareDeck_ok)
next
  case (ActivateBegin d p)
  with ok show ?thesis by (auto simp: activateDeck_begin_ok split: option.splits)
next
  case (ActivateCommit d ms now)
  with ok show ?thesis by (simp add: activateDeck_commit_ok)
next
  case (ActivateFail d)
  with ok show ?thesis by (simp add: activateDeck_fail_ok)
next
  case (PlayPauseSet d b)
  with ok show ?thesis by (simp add: playPauseSet_ok)
next
  case StartPositionTracking
  with ok show ?thesis by (simp add: decks_ok_def positionTracking_decks)
next
  case StopPositionTracking
  with ok show ?thesis by (simp add: decks_ok_def positionTracking_decks)
next
  case (UpdateSpotifyPosition p du da now)
  with ok show ?thesis by (simp add: updateSpotifyPosition_ok)
next
  case (SetDeckPosition d ms)
  with ok show ?thesis by (simp add: setDeckPosition_ok)
next
  case (SeekSpotifyTrack d ms)
  with ok show ?thesis by (simp add: seekSpotifyTrack_ok)
next
  case (ScrubTrack d fw i)
  with ok show ?thesis by (simp add: scrubTrack_ok)
next
  case (SetAutoCrossfadeSettings p)
  with ok show ?thesis by (simp add: decks_ok_cong [OF setAutoCrossfadeSettings_decks])
next
  case (StartAutoCrossfade f t now)
  with ok show ?thesis by (simp add: decks_ok_cong [OF startAutoCrossfade_decks])
next
  case StopAutoCrossfade
  with ok show ?thesis by (simp add: decks_ok_cong [OF stopAutoCrossfade_decks])
next
  case (CheckAutoCrossfadeTrigger now)
  with ok show ?thesis by (simp add: decks_ok_cong [OF checkAutoCrossfadeTrigger_decks])
qed

section \<open>Invariants of reachable states\<close>

lemma reachable_apply_events: "reachable s \<Longrightarrow> reachable (apply_events es s)"
  by (induction es arbitrary: s) (simp_all add: reachable_step)

lemma reachable_decks_ok: "reachable s \<Longrightarrow> decks_ok s"
proof (induction rule: reachable.induct)
  case reachable_initial
  show ?case by (simp add: decks_ok_def initialState_def emptyDeck_facts)
next
  case (reachable_step s e)
  then show ?case by (simp add: step_decks_ok)
qed

lemma at_most_one_active_flags: "at_most_one_active s = (activeFlags s \<noteq> (True, True))"
  by (auto simp: at_most_one_active_def activeFlags_def)

lemma step_at_most_one_active:
  assumes "at_most_one_active s"
  shows "at_most_one_active (apply_event e s)"
proof (cases "(\<exists>d p n. e = ActivateCommit d p n) \<or> e = Cleanup")
  case True
  then show ?thesis
  proof
    assume "\<exists>d p n. e = ActivateCommit d p n"
    then show ?thesis by (auto simp: activateDeck_commit_amo)
  next
    assume "e = Cleanup"
    then show ?thesis by (simp add: at_most_one_active_def cleanup_decks emptyDeck_facts)
  qed
next
  case False
  then have "activeFlags (apply_event e s) = activeFlags s"
    by (intro step_flags) auto
  with assms show ?thesis by (simp add: at_most_one_active_flags)
qed

lemma reachable_at_most_one_active: "reachable s \<Longrightarrow> at_most_one_active s"
proof (induction rule: reachable.induct)
  case reachable_initial
  show ?case by (simp add: at_most_one_active_def initialState_def emptyDeck_facts)
next
  case (reachable_step s e)
  then show ?case by (simp add: step_at_most_one_active)
qed

lemma activeFlags_getDeck:
  "activeFlags s' = activeFlags s \<Longrightarrow> isActive (getDeck d s') = isActive (getDeck d s)"
  by (cases d) (simp_all add: activeFlags_def)

lemma getDeck_cleanup: "getDeck d (cleanup s) = emptyDeck"
  by (cases d) (simp_all add: cleanup_decks)

lemma reachable_no_track_not_loading:
  "reachable s \<Longrightarrow> track (getDeck d s) = None \<Longrightarrow> \<not> isLoading (getDeck d s)"
  using decks_ok_getDeck [OF reachable_decks_ok, of s d] by (simp add: deck_ok_def)

lemma reachable_track_prepared:
  "reachable s \<Longrightarrow> track (getDeck d s) = Some t \<Longrightarrow> isPrepared t"
  using decks_ok_getDeck [OF reachable_decks_ok, of s d] by (simp add: deck_ok_def)

text \<open>
  The operations that consist of several steps stay inside the reachable states:
  \<open>activateDeck\<close> run without interleaving, and a frame of the animation.
\<close>

lemma reachable_activateDeck:
  assumes "reachable s"
  shows "reachable (fst (snd (activateDeck d p sp reply now s)))"
proof (cases "activateDeck_begin d p s")
  case None
  with assms show ?thesis by (simp add: activateDeck_def)
next
  case (Some r)
  obtain s1 uri ms where r: "r = (s1, uri, ms)" by (cases r)
  from Some r have s1: "s1 = apply_event (ActivateBegin d p) s" by simp
  have r1: "reachable s1" unfolding s1 using assms by (rule reachable_step)
  obtain res tr where pt: "playTrack sp reply uri ms = (res, tr)"
    by (cases "playTrack sp reply uri ms")
  show ?thesis
  proof (cases res)
    case Resolved
    have "reachable (apply_event StartPositionTracking (apply_event (ActivateCommit d ms now) s1))"
      using r1 by (intro reachable_step)
    with Some r pt Resolved show ?thesis by (simp add: activateDeck_def Let_def)
  next
    case Rejected
    have "reachable (apply_event (ActivateFail d) s1)"
      using r1 by (rule reachable_step)
    with Some r pt Rejected show ?thesis by (simp add: activateDeck_def)
  qed
qed

lemma reachable_animateCrossfade:
  assumes "reachable s" and "animateCrossfade now sp reply anim s = Some (anim', s', tr, again)"
  shows "reachable s'"
proof -
  let ?c = "settings anim"
  let ?progress = "frameProgress (now - startTime anim) (crossfadeDuration ?c * 1000)"
  obtain p where p: "curveInput ?progress = Some p"
    using assms(2) by (cases "curveInput ?progress") (simp_all add: animateCrossfade_def Let_def)
  let ?pos = "if fromDeck anim = A then getCrossfadeValue p (curve ?c)
              else 1 - getCrossfadeValue p (curve ?c)"
  obtain s1 tr1 where sc: "setCrossfader ?pos s = (s1, tr1)" by (cases "setCrossfader ?pos s")
  then have "s1 = apply_event (SetCrossfader ?pos) s" by simp
  then have r1: "reachable s1" using assms(1) by (simp only: reachable_step)
  obtain ok s2 tr2 where ad: "activateDeck (toDeck anim) False sp reply now s1 = (ok, s2, tr2)"
    by (cases "activateDeck (toDeck anim) False sp reply now s1")
  have r2: "reachable s2"
    using reachable_activateDeck [OF r1, of "toDeck anim" False sp reply now] ad by simp
  have stop: "\<And>x. reachable x \<Longrightarrow> reachable (fst (stopAutoCrossfade x))"
  proof -
    fix x assume "reachable x"
    then have "reachable (apply_event StopAutoCrossfade x)" by (rule reachable_step)
    then show "reachable (fst (stopAutoCrossfade x))" by simp
  qed
  from stop [OF r1] stop [OF r2] have r3: "reachable (s1\<lparr>isCrossfading := False,
      crossfadeStartTime := 0, crossfadeDirection := None\<rparr>)"
     "reachable (s2\<lparr>isCrossfading := False,
      crossfadeStartTime := 0, crossfadeDirection := None\<rparr>)"
    by (simp_all add: stopAutoCrossfade_def)
  from assms(2) p sc ad r1 r2 r3 show ?thesis
    by (auto simp: animateCrossfade_def Let_def stopAutoCrossfade_def split: if_splits)
qed

section \<open>Facts about activation\<close>

lemma updateDeck_twice: "updateDeck d f (updateDeck d g s) = updateDeck d (\<lambda>x. f (g x)) s"
  by (cases d) simp_all

lemma activateDeck_begin_None:
  "(activateDeck_begin d p s = None)
     = (track (getDeck d s) = None \<or> (\<exists>t. track (getDeck d s) = Some t \<and> \<not> isPrepared t))"
  by (auto simp: activateDeck_begin_def Let_def split: option.splits)

lemma activateDeck_begin_Some:
  "track (getDeck d s) = Some t \<Longrightarrow> isPrepared t \<Longrightarrow>
     activateDeck_begin d p s =
       Some (updateDeck d (\<lambda>x. x\<lparr>isLoading := True\<rparr>) s, spotifyUri t,
             startPosition p (getDeck d s) t)"
  by (simp add: activateDeck_begin_def Let_def)

lemma activateDeck_refused:
  "activateDeck_begin d p s = None \<Longrightarrow> activateDeck d p sp reply now s = (False, s, [])"
  by (simp add: activateDeck_def)

lemma activateDeck_rejected:
  assumes "track (getDeck d s) = Some t" "isPrepared t"
    and "fst (playTrack sp reply (spotifyUri t) (startPosition p (getDeck d s) t)) = Rejected"
  shows "activateDeck d p sp reply now s =
           (False, updateDeck d (\<lambda>x. x\<lparr>isLoading := False\<rparr>) s,
            PlayTrackCall (spotifyUri t) (startPosition p (getDeck d s) t)
              # snd (playTrack sp reply (spotifyUri t) (startPosition p (getDeck d s) t)))"
proof -
  obtain r tr where pt: "playTrack sp reply (spotifyUri t) (startPosition p (getDeck d s) t) = (r, tr)"
    by (cases "playTrack sp reply (spotifyUri t) (startPosition p (getDeck d s) t)")
  with assms(3) have r: "r = Rejected" by simp
  show ?thesis
    using assms(1,2) pt r
    by (simp add: activateDeck_def activateDeck_begin_Some activateDeck_fail_def updateDeck_twice)
qed

lemma loadSpotifyTrack_track:
  "loadSpotifyTrack d sp ms now s = Inr s' \<Longrightarrow>
     \<exists>t. track (getDeck d s') = Some t \<and> isPrepared t \<and> preparedStartTime t = ms"
  by (drule loadSpotifyTrack_shape) (auto simp: getDeck_updateDeck buildTrack_prepared)


lemma commit_other_deck:
  "getDeck (other d) (activateDeck_commit d ms now s) =
     (getDeck (other d) s)\<lparr> isActive := False, isPlaying := False,
        lastPlayedPosition :=
          (if isActive (getDeck (other d) s) then currentTime (getDeck (other d) s)
           else lastPlayedPosition (getDeck (other d) s)) \<rparr>"
  by (cases d) simp_all

lemma playTrack_no_call: "filter isPlayTrackCall (snd (playTrack sp reply uri ms)) = []"
  by (simp add: playTrack_def split: api_reply.splits)

lemma activateDeck_play_call:
  assumes "track (getDeck d s) = Some t" "isPrepared t"
  shows "filter isPlayTrackCall (snd (snd (activateDeck d p sp reply now s)))
            = [PlayTrackCall (spotifyUri t) (startPosition p (getDeck d s) t)]"
proof -
  obtain r tr where pt: "playTrack sp reply (spotifyUri t) (startPosition p (getDeck d s) t) = (r, tr)"
    by (cases "playTrack sp reply (spotifyUri t) (startPosition p (getDeck d s) t)")
  have "filter isPlayTrackCall tr = []"
    using playTrack_no_call [of sp reply "spotifyUri t" "startPosition p (getDeck d s) t"] pt
    by simp
  with assms pt show ?thesis
    by (cases r) (simp_all add: activateDeck_def activateDeck_begin_Some Let_def)
qed

lemma playTrack_ready:
  "playerReady sp \<Longrightarrow>
     playTrack sp (Response ok) uri ms
       = (if ok then Resolved else Rejected, [RemotePlay uri ms])"
  by (simp add: playTrack_def playerReady_def)

lemma playTrack_not_ready:
  "\<not> playerReady sp \<Longrightarrow> playTrack sp reply uri ms = (Resolved, [])"
  by (auto simp: playTrack_def playerReady_def)

lemma startPosition_fresh: "startPosition False x t = preparedStartTime t"
  by (simp add: startPosition_def)

lemma commit_same_deck:
  "getDeck d (activateDeck_commit d ms now s) =
     (getDeck d s)\<lparr> isActive := True, isPlaying := True, isLoading := False,
        lastActivated := now, currentTime := ms / 1000 \<rparr>"
  by (cases d) simp_all

lemma getDeck_startPositionTracking: "getDeck d (startPositionTracking s) = getDeck d s"
  by (cases d) (simp_all add: startPositionTracking_def)

lemma other_neq: "other d \<noteq> d"
  by (cases d) simp_all

lemma activateDeck_resolved:
  assumes "track (getDeck d s) = Some t" "isPrepared t"
    and "fst (playTrack sp reply (spotifyUri t) (startPosition p (getDeck d s) t)) = Resolved"
  shows "fst (activateDeck d p sp reply now s) = True"
    and "getDeck d (fst (snd (activateDeck d p sp reply now s))) =
           (getDeck d s)\<lparr> isActive := True, isPlaying := True, isLoading := False,
              lastActivated := now,
              currentTime := startPosition p (getDeck d s) t / 1000 \<rparr>"
    and "getDeck (other d) (fst (snd (activateDeck d p sp reply now s))) =
           (getDeck (other d) s)\<lparr> isActive := False, isPlaying := False,
              lastPlayedPosition :=
                (if isActive (getDeck (other d) s) then currentTime (getDeck (other d) s)
                 else lastPlayedPosition (getDeck (other d) s)) \<rparr>"
proof -
  let ?ms = "startPosition p (getDeck d s) t"
  let ?s1 = "updateDeck d (\<lambda>x. x\<lparr>isLoading := True\<rparr>) s"
  obtain r tr where pt: "playTrack sp reply (spotifyUri t) ?ms = (r, tr)"
    by (cases "playTrack sp reply (spotifyUri t) ?ms")
  with assms(3) have r: "r = Resolved" by simp
  have eq: "activateDeck d p sp reply now s =
      (True, startPositionTracking (activateDeck_commit d ?ms now ?s1),
       PlayTrackCall (spotifyUri t) ?ms # tr
         @ (if isCrossfading (activateDeck_commit d ?ms now ?s1) then [BeatSyncStart d] else []))"
    using assms(1,2) pt r by (simp add: activateDeck_def activateDeck_begin_Some Let_def)
  show "fst (activateDeck d p sp reply now s) = True" by (simp add: eq)
  show "getDeck d (fst (snd (activateDeck d p sp reply now s))) =
           (getDeck d s)\<lparr> isActive := True, isPlaying := True, isLoading := False,
              lastActivated := now, currentTime := ?ms / 1000 \<rparr>"
    by (simp add: eq getDeck_startPositionTracking commit_same_deck getDeck_updateDeck)
  show "getDeck (other d) (fst (snd (activateDeck d p sp reply now s))) =
           (getDeck (other d) s)\<lparr> isActive := False, isPlaying := False,
              lastPlayedPosition :=
                (if isActive (getDeck (other d) s) then currentTime (getDeck (other d) s)
                 else lastPlayedPosition (getDeck (other d) s)) \<rparr>"
    by (simp add: eq getDeck_startPositionTracking commit_other_deck getDeck_updateDeck other_neq)
qed


lemma activateDeck_player_not_ready:
  assumes "track (getDeck d s) = Some t" "isPrepared t" "\<not> playerReady sp"
  shows "fst (activateDeck d p sp reply now s) = True"
    and "isActive (getDeck d (fst (snd (activateDeck d p sp reply now s))))"
    and "isPlaying (getDeck d (fst (snd (activateDeck d p sp reply now s))))"
    and "RemotePlay uri ms \<notin> set (snd (snd (activateDeck d p sp reply now s)))"
proof -
  have res: "fst (playTrack sp reply (spotifyUri t) (startPosition p (getDeck d s) t)) = Resolved"
    using assms(3) by (simp add: playTrack_not_ready)
  note r = activateDeck_resolved [OF assms(1,2) res, of now]
  from r(1) show "fst (activateDeck d p sp reply now s) = True" .
  from r(2) show "isActive (getDeck d (fst (snd (activateDeck d p sp reply now s))))" by simp
  from r(2) show "isPlaying (getDeck d (fst (snd (activateDeck d p sp reply now s))))" by simp
  show "RemotePlay uri ms \<notin> set (snd (snd (activateDeck d p sp reply now s)))"
    using assms by (simp add: activateDeck_def activateDeck_begin_Some playTrack_not_ready Let_def)
qed

section \<open>The trigger check\<close>

lemma startAutoCrossfade_in_flight: "isCrossfading s \<Longrightarrow> startAutoCrossfade f t now s = (s, None)"
  by (simp add: startAutoCrossfade_def Let_def)

lemma checkAutoCrossfadeTrigger_in_flight:
  "isCrossfading s \<Longrightarrow> checkAutoCrossfadeTrigger now s = (s, None)"
  by (simp add: checkAutoCrossfadeTrigger_def)

lemma trigger_A:
  "triggerCondition s A \<Longrightarrow> checkAutoCrossfadeTrigger now s = startedTransition A now s"
  by (auto simp: triggerCondition_def checkAutoCrossfadeTrigger_def startAutoCrossfade_def
        startedTransition_def Let_def split: option.splits)

lemma trigger_B:
  "triggerCondition s B \<Longrightarrow> checkAutoCrossfadeTrigger now s = startedTransition B now s"
  by (auto simp: triggerCondition_def checkAutoCrossfadeTrigger_def startAutoCrossfade_def
        startedTransition_def Let_def split: option.splits)

lemma trigger_none:
  "at_most_one_active s \<Longrightarrow> \<not> triggerCondition s A \<Longrightarrow> \<not> triggerCondition s B \<Longrightarrow>
     checkAutoCrossfadeTrigger now s = (s, None)"
  by (auto simp: triggerCondition_def checkAutoCrossfadeTrigger_def startAutoCrossfade_def
        at_most_one_active_def Let_def split: option.splits)

section \<open>Volume pushes\<close>

lemma hasSpotifyTrack_iff: "hasSpotifyTrack x = (track x \<noteq> None)"
  by (cases "track x") (simp_all add: hasSpotifyTrack_def, metis track_kind.exhaust)

lemma setVolume_trace:
  "snd (setVolume d v s) =
     (if track (getDeck d s) \<noteq> None \<and> isActive (getDeck d s)
      then [RemoteSetVolume d (max 0 (min 1 v) * crossfaderMix d (crossfaderPosition s))]
      else [])"
  by (simp add: setVolume_def Let_def hasSpotifyTrack_iff crossfaderMix_def)

lemma setCrossfader_trace:
  "snd (setCrossfader p s) =
     (if track (deckA s) \<noteq> None \<and> isPlaying (deckA s)
      then [RemoteSetVolume A (volume (deckA s) * crossfaderMix A (max 0 (min 1 p)))] else [])
     @ (if track (deckB s) \<noteq> None \<and> isPlaying (deckB s)
      then [RemoteSetVolume B (volume (deckB s) * crossfaderMix B (max 0 (min 1 p)))] else [])"
  by (simp add: setCrossfader_def Let_def hasSpotifyTrack_iff crossfaderMix_def)

section \<open>Frames of the animation\<close>

lemma setCrossfader_no_activation: "filter isActivation (snd (setCrossfader p s)) = []"
  by (simp add: setCrossfader_def Let_def)

lemma playTrack_no_activation: "filter isActivation (snd (playTrack sp reply uri ms)) = []"
  by (simp add: playTrack_def split: api_reply.splits)

lemma activateDeck_no_activation:
  "filter isActivation (snd (snd (activateDeck d p sp reply now s))) = []"
proof (cases "activateDeck_begin d p s")
  case None
  then show ?thesis by (simp add: activateDeck_def)
next
  case (Some r)
  obtain s1 uri ms where r: "r = (s1, uri, ms)" by (cases r)
  obtain res tr where pt: "playTrack sp reply uri ms = (res, tr)" by (cases "playTrack sp reply uri ms")
  have "filter isActivation tr = []"
    using playTrack_no_activation [of sp reply uri ms] pt by simp
  with Some r pt show ?thesis
    by (cases res) (simp_all add: activateDeck_def Let_def)
qed

lemma stopAutoCrossfade_no_activation: "filter isActivation (snd (stopAutoCrossfade s)) = []"
  by (simp add: stopAutoCrossfade_def)

lemma animateCrossfade_frame:
  assumes "animateCrossfade now sp reply anim s = Some (anim', s', tr, again)"
  shows "sameTransition anim anim'
    \<and> ((filter isActivation tr = [] \<and> hasActivated anim' = hasActivated anim)
       \<or> (filter isActivation tr = [ActivateDeckInvoked (toDeck anim) False]
           \<and> \<not> hasActivated anim \<and> hasActivated anim' \<and> handoffDue now anim))"
proof -
  let ?c = "settings anim"
  let ?progress = "frameProgress (now - startTime anim) (crossfadeDuration ?c * 1000)"
  obtain p where p: "curveInput ?progress = Some p"
    using assms by (cases "curveInput ?progress") (simp_all add: animateCrossfade_def Let_def)
  let ?pos = "if fromDeck anim = A then getCrossfadeValue p (curve ?c)
              else 1 - getCrossfadeValue p (curve ?c)"
  obtain s1 tr1 where sc: "setCrossfader ?pos s = (s1, tr1)" by (cases "setCrossfader ?pos s")
  obtain ok s2 tr2 where ad: "activateDeck (toDeck anim) False sp reply now s1 = (ok, s2, tr2)"
    by (cases "activateDeck (toDeck anim) False sp reply now s1")
  have n1: "filter isActivation tr1 = []"
    using setCrossfader_no_activation [of ?pos s] sc by simp
  have n2: "filter isActivation tr2 = []"
    using activateDeck_no_activation [of "toDeck anim" False sp reply now s1] ad by simp
  show ?thesis
  proof (cases "\<not> hasActivated anim \<and> now - startTime anim \<ge> crossfadeDuration ?c * switchTiming ?c * 1000
                 \<and> autoActivateNext ?c \<and> \<not> isActive (targetDeck anim)")
    case True
    then have due: "handoffDue now anim" by (simp add: handoffDue_def mult.commute)
    from True assms p sc ad n1 n2 due show ?thesis
      by (auto simp: animateCrossfade_def Let_def stopAutoCrossfade_def sameTransition_def
            split: if_splits)
  next
    case False
    from False assms p sc n1 show ?thesis
      by (auto simp: animateCrossfade_def Let_def stopAutoCrossfade_def sameTransition_def
            split: if_splits)
  qed
qed

lemma activations_Nil: "activations [] = []"
  by (simp add: activations_def)

lemma activations_Cons:
  "activations ((now, tr) # frameLog) = map (Pair now) (filter isActivation tr) @ activations frameLog"
  by (simp add: activations_def)

lemma handoffDue_same: "sameTransition a b \<Longrightarrow> handoffDue now b = handoffDue now a"
  by (simp add: handoffDue_def sameTransition_def)

lemma runAnimation_activations:
  "(hasActivated anim \<longrightarrow> activations (runAnimation frames anim s) = [])
   \<and> length (activations (runAnimation frames anim s)) \<le> 1
   \<and> (\<forall>(now, x) \<in> set (activations (runAnimation frames anim s)).
         x = ActivateDeckInvoked (toDeck anim) False \<and> handoffDue now anim)"
proof (induction frames arbitrary: anim s)
  case Nil
  show ?case by (simp add: activations_Nil)
next
  case (Cons f frames)
  obtain between now sp reply where f: "f = (between, now, sp, reply)" by (cases f)
  show ?case
  proof (cases "animateCrossfade now sp reply anim (apply_events between s)")
    case None
    with f show ?thesis by (simp add: activations_Nil)
  next
    case (Some r)
    obtain anim' s' tr again where r: "r = (anim', s', tr, again)" by (cases r)
    from Some r have fr: "sameTransition anim anim'
      \<and> ((filter isActivation tr = [] \<and> hasActivated anim' = hasActivated anim)
       \<or> (filter isActivation tr = [ActivateDeckInvoked (toDeck anim) False]
           \<and> \<not> hasActivated anim \<and> hasActivated anim' \<and> handoffDue now anim))"
      by (intro animateCrossfade_frame) simp
    then have same: "sameTransition anim anim'" by simp
    then have td: "toDeck anim' = toDeck anim" by (simp add: sameTransition_def)
    let ?rest = "if again then runAnimation frames anim' s' else []"
    have run: "runAnimation (f # frames) anim s = (now, tr) # ?rest"
      using f Some r by simp
    have ih: "(hasActivated anim' \<longrightarrow> activations ?rest = [])
       \<and> length (activations ?rest) \<le> 1
       \<and> (\<forall>(n, x) \<in> set (activations ?rest).
             x = ActivateDeckInvoked (toDeck anim) False \<and> handoffDue n anim)"
      using Cons.IH [of anim' s'] td handoffDue_same [OF same]
      by (simp add: activations_Nil)
    from fr show ?thesis
    proof (elim conjE disjE)
      assume "filter isActivation tr = []" "hasActivated anim' = hasActivated anim"
      with ih run show ?thesis by (simp add: activations_Cons)
    next
      assume a: "filter isActivation tr = [ActivateDeckInvoked (toDeck anim) False]"
        "\<not> hasActivated anim" "hasActivated anim'" "handoffDue now anim"
      with ih have "activations ?rest = []" by simp
      with a run show ?thesis by (simp add: activations_Cons)
    qed
  qed
qed

lemma setCrossfader_no_play: "filter isPlayTrackCall (snd (setCrossfader p s)) = []"
  by (simp add: setCrossfader_def Let_def)

lemma getDeck_setCrossfader: "getDeck d (fst (setCrossfader p s)) = getDeck d s"
  by (cases d) (simp_all add: setCrossfader_decks)

lemma getDeck_stopped:
  "getDeck d (s\<lparr>isCrossfading := False, crossfadeStartTime := 0, crossfadeDirection := None\<rparr>)
     = getDeck d s"
  by (cases d) simp_all

lemma animateCrossfade_handoff:
  assumes "animateCrossfade clock sp reply anim s0 = Some (anim', s', tr, again)"
  shows "ActivateDeckInvoked (toDeck anim) False \<notin> set tr \<longrightarrow> filter isPlayTrackCall tr = []"
    and "ActivateDeckInvoked (toDeck anim) False \<in> set tr
         \<and> track (getDeck (toDeck anim) s0) = Some t \<and> isPrepared t \<longrightarrow>
           filter isPlayTrackCall tr = [PlayTrackCall (spotifyUri t) (preparedStartTime t)]
           \<and> (fst (playTrack sp reply (spotifyUri t) (preparedStartTime t)) = Resolved \<longrightarrow>
                isActive (getDeck (toDeck anim) s') \<and> isPlaying (getDeck (toDeck anim) s')
                \<and> currentTime (getDeck (toDeck anim) s') = preparedStartTime t / 1000)"
proof -
  let ?c = "settings anim"
  let ?progress = "frameProgress (clock - startTime anim) (crossfadeDuration ?c * 1000)"
  obtain p where p: "curveInput ?progress = Some p"
    using assms by (cases "curveInput ?progress") (simp_all add: animateCrossfade_def Let_def)
  let ?pos = "if fromDeck anim = A then getCrossfadeValue p (curve ?c)
              else 1 - getCrossfadeValue p (curve ?c)"
  obtain s1 tr1 where sc: "setCrossfader ?pos s0 = (s1, tr1)" by (cases "setCrossfader ?pos s0")
  obtain ok s2 tr2 where ad: "activateDeck (toDeck anim) False sp reply clock s1 = (ok, s2, tr2)"
    by (cases "activateDeck (toDeck anim) False sp reply clock s1")
  have n1: "filter isPlayTrackCall tr1 = []"
    using setCrossfader_no_play [of ?pos s0] sc by simp
  have m1: "ActivateDeckInvoked (toDeck anim) False \<notin> set tr1"
    using setCrossfader_no_activation [of ?pos s0] sc by (auto simp: filter_empty_conv)
  have d1: "getDeck (toDeck anim) s1 = getDeck (toDeck anim) s0"
    using getDeck_setCrossfader [of "toDeck anim" ?pos s0] sc by simp
  let ?C = "\<not> hasActivated anim \<and> clock - startTime anim \<ge> crossfadeDuration ?c * switchTiming ?c * 1000
              \<and> autoActivateNext ?c \<and> \<not> isActive (targetDeck anim)"
  show "ActivateDeckInvoked (toDeck anim) False \<notin> set tr \<longrightarrow> filter isPlayTrackCall tr = []"
  proof (cases ?C)
    case True
    with assms p sc ad show ?thesis
      by (auto simp: animateCrossfade_def Let_def stopAutoCrossfade_def split: if_splits)
  next
    case False
    with assms p sc n1 show ?thesis
      by (auto simp: animateCrossfade_def Let_def stopAutoCrossfade_def split: if_splits)
  qed
  show "ActivateDeckInvoked (toDeck anim) False \<in> set tr
         \<and> track (getDeck (toDeck anim) s0) = Some t \<and> isPrepared t \<longrightarrow>
           filter isPlayTrackCall tr = [PlayTrackCall (spotifyUri t) (preparedStartTime t)]
           \<and> (fst (playTrack sp reply (spotifyUri t) (preparedStartTime t)) = Resolved \<longrightarrow>
                isActive (getDeck (toDeck anim) s') \<and> isPlaying (getDeck (toDeck anim) s')
                \<and> currentTime (getDeck (toDeck anim) s') = preparedStartTime t / 1000)"
  proof
    assume h: "ActivateDeckInvoked (toDeck anim) False \<in> set tr
         \<and> track (getDeck (toDeck anim) s0) = Some t \<and> isPrepared t"
    have C: ?C
    proof (rule ccontr)
      assume "\<not> ?C"
      with assms p sc m1 have "ActivateDeckInvoked (toDeck anim) False \<notin> set tr"
        by (auto simp: animateCrossfade_def Let_def stopAutoCrossfade_def split: if_splits)
      with h show False by simp
    qed
    from h d1 have tk: "track (getDeck (toDeck anim) s1) = Some t" by simp
    from h have pr: "isPrepared t" by simp
    have calls: "filter isPlayTrackCall tr2 = [PlayTrackCall (spotifyUri t) (preparedStartTime t)]"
      using activateDeck_play_call [OF tk pr, of False sp reply clock] ad
      by (simp add: startPosition_fresh)
    have tr: "filter isPlayTrackCall tr = filter isPlayTrackCall tr2"
      using C assms p sc ad n1
      by (auto simp: animateCrossfade_def Let_def stopAutoCrossfade_def split: if_splits)
    have st: "getDeck (toDeck anim) s' = getDeck (toDeck anim) s2"
      using C assms p sc ad
      by (auto simp: animateCrossfade_def Let_def stopAutoCrossfade_def getDeck_stopped
            split: if_splits)
    have eff: "fst (playTrack sp reply (spotifyUri t) (preparedStartTime t)) = Resolved \<longrightarrow>
                isActive (getDeck (toDeck anim) s2) \<and> isPlaying (getDeck (toDeck anim) s2)
                \<and> currentTime (getDeck (toDeck anim) s2) = preparedStartTime t / 1000"
      using activateDeck_resolved(2) [OF tk pr, of sp reply False clock] ad
      by (simp add: startPosition_fresh)
    from calls tr st eff
    show "filter isPlayTrackCall tr = [PlayTrackCall (spotifyUri t) (preparedStartTime t)]
           \<and> (fst (playTrack sp reply (spotifyUri t) (preparedStartTime t)) = Resolved \<longrightarrow>
                isActive (getDeck (toDeck anim) s') \<and> isPlaying (getDeck (toDeck anim) s')
                \<and> currentTime (getDeck (toDeck anim) s') = preparedStartTime t / 1000)"
      by simp
  qed
qed

lemma runAnimation_play_calls:
  "\<forall>(now, tr) \<in> set (runAnimation frames anim s).
      filter isPlayTrackCall tr \<noteq> [] \<longrightarrow> ActivateDeckInvoked (toDeck anim) False \<in> set tr"
proof (induction frames arbitrary: anim s)
  case Nil
  show ?case by simp
next
  case (Cons f frames)
  obtain between now sp reply where f: "f = (between, now, sp, reply)" by (cases f)
  show ?case
  proof (cases "animateCrossfade now sp reply anim (apply_events between s)")
    case None
    with f show ?thesis by simp
  next
    case (Some r)
    obtain anim' s' tr again where r: "r = (anim', s', tr, again)" by (cases r)
    from Some r have fr: "animateCrossfade now sp reply anim (apply_events between s)
                            = Some (anim', s', tr, again)" by simp
    from animateCrossfade_frame [OF fr] have td: "toDeck anim' = toDeck anim"
      by (simp add: sameTransition_def)
    from animateCrossfade_handoff(1) [OF fr]
    have here: "filter isPlayTrackCall tr \<noteq> [] \<longrightarrow> ActivateDeckInvoked (toDeck anim) False \<in> set tr"
      by blast
    let ?rest = "if again then runAnimation frames anim' s' else []"
    have run: "runAnimation (f # frames) anim s = (now, tr) # ?rest"
      using f Some r by simp
    have ih: "\<forall>(n, x) \<in> set ?rest.
      filter isPlayTrackCall x \<noteq> [] \<longrightarrow> ActivateDeckInvoked (toDeck anim) False \<in> set x"
      using Cons.IH [of anim' s'] td by simp
    from here ih show ?thesis unfolding run by simp
  qed
qed

lemma frameProgress_complete:
  assumes "0 < totalDuration" "totalDuration \<le> elapsed"
  shows "frameProgress elapsed totalDuration = Progress 1"
proof -
  from assms have "1 \<le> elapsed / totalDuration" by simp
  then have "min (elapsed / totalDuration) 1 = 1" by simp
  with assms show ?thesis by (simp add: frameProgress_def)
qed

lemma final_frame:
  assumes "0 < crossfadeDuration (settings anim)"
    and "crossfadeDuration (settings anim) * 1000 \<le> now - startTime anim"
  shows "\<exists>anim' s' tr. animateCrossfade now sp reply anim s = Some (anim', s', tr, False)
           \<and> \<not> isCrossfading s' \<and> crossfadeDirection s' = None \<and> crossfadeStartTime s' = 0"
proof -
  let ?c = "settings anim"
  have pr: "frameProgress (now - startTime anim) (crossfadeDuration ?c * 1000) = Progress 1"
    using assms by (intro frameProgress_complete) simp_all
  let ?pos = "if fromDeck anim = A then getCrossfadeValue 1 (curve ?c)
              else 1 - getCrossfadeValue 1 (curve ?c)"
  obtain s1 tr1 where sc: "setCrossfader ?pos s = (s1, tr1)" by (cases "setCrossfader ?pos s")
  obtain ok s2 tr2 where ad: "activateDeck (toDeck anim) False sp reply now s1 = (ok, s2, tr2)"
    by (cases "activateDeck (toDeck anim) False sp reply now s1")
  from pr sc ad show ?thesis
    by (simp add: animateCrossfade_def Let_def stopAutoCrossfade_def)
qed

section \<open>The example states evaluated\<close>

lemma exampleTrack_fields:
  "duration exampleTrack = 180" "isPrepared exampleTrack" "spotifyUri exampleTrack = ''spotify:track:t1''"
  "preparedStartTime exampleTrack = 0"
  by (simp_all add: exampleTrack_def buildTrack_def exampleSpotifyTrack_def)

lemma secondTrack_fields:
  "duration secondTrack = 200" "isPrepared secondTrack" "spotifyUri secondTrack = ''spotify:track:t2''"
  "preparedStartTime secondTrack = 0"
  by (simp_all add: secondTrack_def buildTrack_def secondSpotifyTrack_def)

lemma stateActiveA_eq:
  "stateActiveA = initialState\<lparr> deckA := emptyDeck\<lparr> track := Some exampleTrack, isActive := True,
      isPlaying := True, lastActivated := 1 \<rparr> \<rparr>"
  by (simp add: stateActiveA_def exampleSpotifyTrack_def loadSpotifyTrack_def initialState_def
        emptyDeck_def activateDeck_begin_def Let_def buildTrack_def exampleTrack_def)

lemma stateActiveA_eval:
  "isActive (deckA stateActiveA)" "\<not> isActive (deckB stateActiveA)"
  by (simp_all add: stateActiveA_def exampleSpotifyTrack_def loadSpotifyTrack_def initialState_def
        emptyDeck_def activateDeck_begin_def Let_def buildTrack_def)

lemma stateActiveA_fields:
  "track (deckA stateActiveA) = Some exampleTrack" "isActive (deckA stateActiveA)"
  "isPlaying (deckA stateActiveA)" "crossfaderPosition stateActiveA = 0.5"
  "volume (deckA stateActiveA) = 0.8" "track (deckB stateActiveA) = None"
  by (simp_all add: stateActiveA_eq initialState_def emptyDeck_def)

lemma reachable_stateActiveA: "reachable stateActiveA"
  unfolding stateActiveA_def by (intro reachable_apply_events reachable_initial)

lemma statePausedA_fields:
  "track (deckA statePausedA) = Some exampleTrack" "isActive (deckA statePausedA)"
  "\<not> isPlaying (deckA statePausedA)" "crossfaderPosition statePausedA = 0.5"
  by (simp_all add: statePausedA_def stateActiveA_eq initialState_def emptyDeck_def)

lemma reachable_statePausedA: "reachable statePausedA"
  unfolding statePausedA_def by (intro reachable_step reachable_stateActiveA)

lemma load_example: "loadSpotifyTrack A exampleSpotifyTrack 0 0 initialState = Inr stateLoadedA"
  by (simp add: loadSpotifyTrack_def exampleSpotifyTrack_def stateLoadedA_def exampleTrack_def
        initialState_def emptyDeck_def)

lemma stateReady_eq:
  "stateReady = initialState\<lparr> deckA := emptyDeck\<lparr> track := Some exampleTrack, isActive := True,
      isPlaying := True, lastActivated := 1 \<rparr>, deckB := emptyDeck\<lparr>track := Some secondTrack\<rparr> \<rparr>"
  by (simp add: stateReady_def stateActiveA_eq secondSpotifyTrack_def loadSpotifyTrack_def
        initialState_def emptyDeck_def secondTrack_def)

lemma stateReady_fields:
  "track (getDeck B stateReady) = Some secondTrack" "\<not> isLoading (getDeck B stateReady)"
  "isActive (getDeck A stateReady)" "\<not> isActive (getDeck B stateReady)"
  by (simp_all add: stateReady_eq emptyDeck_def)

lemma reachable_stateReady: "reachable stateReady"
  unfolding stateReady_def by (intro reachable_step reachable_stateActiveA)

lemma statePlayingAt_eq:
  "statePlayingAt ms = initialState\<lparr> deckA := emptyDeck\<lparr> track := Some exampleTrack, isActive := True,
      isPlaying := True, lastActivated := 1, currentTime := ms / 1000 \<rparr>,
      deckB := emptyDeck\<lparr>track := Some secondTrack\<rparr> \<rparr>"
  by (simp add: statePlayingAt_def stateReady_eq setDeckPosition_def initialState_def emptyDeck_def)

lemma statePlayingAt_decks:
  "deckA (statePlayingAt ms) = emptyDeck\<lparr> track := Some exampleTrack, isActive := True,
      isPlaying := True, lastActivated := 1, currentTime := ms / 1000 \<rparr>"
  "deckB (statePlayingAt ms) = emptyDeck\<lparr>track := Some secondTrack\<rparr>"
  "autoCrossfade (statePlayingAt ms) = autoCrossfade initialState"
  "isCrossfading (statePlayingAt ms) = False"
  "crossfaderPosition (statePlayingAt ms) = 0.5"
  by (simp_all add: statePlayingAt_eq initialState_def)

lemma reachable_statePlayingAt: "reachable (statePlayingAt ms)"
  unfolding statePlayingAt_def stateReady_def
  by (intro reachable_step reachable_stateActiveA)

lemma at_most_one_statePlayingAt: "at_most_one_active (statePlayingAt ms)"
  by (simp add: at_most_one_active_def statePlayingAt_decks emptyDeck_def)

lemma triggerCondition_166: "triggerCondition (statePlayingAt 166000) A"
  by (simp add: triggerCondition_def statePlayingAt_decks emptyDeck_def initialState_def
        exampleTrack_fields secondTrack_fields)

lemma triggerCondition_160:
  "\<not> triggerCondition (statePlayingAt 160000) A" "\<not> triggerCondition (statePlayingAt 160000) B"
  by (simp_all add: triggerCondition_def statePlayingAt_decks emptyDeck_def initialState_def
        exampleTrack_fields secondTrack_fields)

lemma trig166: "checkAutoCrossfadeTrigger 0 (statePlayingAt 166000)
   = ((statePlayingAt 166000)\<lparr> isCrossfading := True, crossfadeStartTime := 0,
          crossfadeDirection := Some A_to_B \<rparr>, Some exampleAnimation)"
  by (simp add: statePlayingAt_eq checkAutoCrossfadeTrigger_def startAutoCrossfade_def Let_def
       initialState_def emptyDeck_def exampleTrack_fields secondTrack_fields exampleAnimation_def)

lemma stateCrossfading_eq:
  "stateCrossfading = (statePlayingAt 166000)\<lparr> isCrossfading := True, crossfadeStartTime := 0,
          crossfadeDirection := Some A_to_B \<rparr>"
  by (simp add: stateCrossfading_def trig166)

lemma stateCrossfading_fields:
  "deckA stateCrossfading = emptyDeck\<lparr> track := Some exampleTrack, isActive := True,
      isPlaying := True, lastActivated := 1, currentTime := 166 \<rparr>"
  "deckB stateCrossfading = emptyDeck\<lparr>track := Some secondTrack\<rparr>"
  "isCrossfading stateCrossfading"
  "crossfadeDirection stateCrossfading = Some A_to_B"
  by (simp_all add: stateCrossfading_eq statePlayingAt_decks)

lemma stateStopped_eq:
  "stateStopped = statePlayingAt 166000"
  by (simp add: stateStopped_def stopAutoCrossfade_def stateCrossfading_eq statePlayingAt_eq
       initialState_def)

lemmas example_defs =
  animateCrossfade_def exampleAnimation_def initialState_def frameProgress_def
  getCrossfadeValue_def Let_def statePlayingAt_eq setCrossfader_def emptyDeck_def
  hasSpotifyTrack_iff activateDeck_def activateDeck_begin_def secondTrack_fields
  exampleTrack_fields startPosition_def playTrack_def readyPlayer_def
  startPositionTracking_def stopAutoCrossfade_def

lemma frame_after_stop:
  "frameTrace (animateCrossfade 6000 readyPlayer (Response True) exampleAnimation stateStopped)
     = [RemoteSetVolume A (1 / 8), ActivateDeckInvoked B False,
        PlayTrackCall ''spotify:track:t2'' 0, RemotePlay ''spotify:track:t2'' 0]"
  "map_option (\<lambda>s. isActive (deckB s))
     (frameStore (animateCrossfade 6000 readyPlayer (Response True) exampleAnimation stateStopped))
     = Some True"
  by (simp_all add: stateStopped_eq example_defs)


lemma readyPlayer_ready: "playerReady readyPlayer"
  by (simp add: playerReady_def readyPlayer_def)

lemma notReadyPlayer_not_ready: "\<not> playerReady notReadyPlayer"
  by (simp add: playerReady_def notReadyPlayer_def)

lemma reachable_stateLoadedA: "reachable stateLoadedA"
proof -
  have eq: "stateLoadedA = apply_event (LoadSpotifyTrack A exampleSpotifyTrack 0 0) initialState"
    by (simp add: load_example)
  have "reachable (apply_event (LoadSpotifyTrack A exampleSpotifyTrack 0 0) initialState)"
    by (intro reachable_step reachable_initial)
  then show ?thesis by (simp only: eq)
qed

lemma stateAfterActivatingB_eq:
  "stateAfterActivatingB = initialState\<lparr>
      deckA := emptyDeck\<lparr> track := Some exampleTrack, lastActivated := 1,
                 currentTime := 42.3, lastPlayedPosition := 42.3 \<rparr>,
      deckB := emptyDeck\<lparr> track := Some secondTrack, isActive := True, isPlaying := True,
                 lastActivated := 9 \<rparr>,
      positionUpdateInterval := True \<rparr>"
  by (simp add: stateAfterActivatingB_def statePlayingAt_eq initialState_def emptyDeck_def
        activateDeck_def activateDeck_begin_def Let_def secondTrack_fields startPosition_def
        playTrack_def readyPlayer_def startPositionTracking_def)


lemma recuedTrack_fields:
  "duration recuedTrack = 180" "isPrepared recuedTrack"
  "spotifyUri recuedTrack = ''spotify:track:t1''" "preparedStartTime recuedTrack = 5000"
  by (simp_all add: recuedTrack_def exampleTrack_fields)

lemma stateResumable_eq:
  "stateResumable = initialState\<lparr>
      deckA := emptyDeck\<lparr> track := Some recuedTrack, lastActivated := 1,
                 currentTime := 7, lastPlayedPosition := 42.3 \<rparr>,
      deckB := emptyDeck\<lparr> track := Some secondTrack, isActive := True, isPlaying := True,
                 lastActivated := 9, currentTime := 190 \<rparr>,
      positionUpdateInterval := True \<rparr>"
  by (simp add: stateResumable_def stateAfterActivatingB_eq prepareDeck_def setDeckPosition_def
        initialState_def emptyDeck_def recuedTrack_def Let_def)

lemma return_trigger:
  "checkAutoCrossfadeTrigger 20 stateResumable
     = (stateResumable\<lparr> isCrossfading := True, crossfadeStartTime := 20,
          crossfadeDirection := Some B_to_A \<rparr>, Some returnAnimation)"
  by (simp add: stateResumable_eq checkAutoCrossfadeTrigger_def startAutoCrossfade_def Let_def
        initialState_def emptyDeck_def recuedTrack_fields secondTrack_fields returnAnimation_def)

lemma stateReturning_eq:
  "stateReturning = stateResumable\<lparr> isCrossfading := True, crossfadeStartTime := 20,
          crossfadeDirection := Some B_to_A \<rparr>"
  by (simp add: stateReturning_def return_trigger)

lemma stateReturning_deckA:
  "deckA stateReturning = emptyDeck\<lparr> track := Some recuedTrack, lastActivated := 1,
                 currentTime := 7, lastPlayedPosition := 42.3 \<rparr>"
  by (simp add: stateReturning_eq stateResumable_eq)

lemmas return_defs =
  animateCrossfade_def returnAnimation_def initialState_def frameProgress_def
  getCrossfadeValue_def Let_def stateResumable_eq setCrossfader_def emptyDeck_def
  hasSpotifyTrack_iff activateDeck_def activateDeck_begin_def secondTrack_fields
  recuedTrack_fields startPosition_def playTrack_def readyPlayer_def
  startPositionTracking_def stopAutoCrossfade_def

lemma return_frame:
  "frameTrace (animateCrossfade 6020 readyPlayer (Response True) returnAnimation stateReturning)
     = [RemoteSetVolume B (1 / 8), ActivateDeckInvoked A False,
        PlayTrackCall ''spotify:track:t1'' 5000, RemotePlay ''spotify:track:t1'' 5000,
        BeatSyncStart A]"
  by (simp add: stateReturning_eq return_defs)

lemma return_run:
  "activations (runAnimation returnFrames returnAnimation stateReturning)
     = [(6020, ActivateDeckInvoked A False)]"
  by (simp add: returnFrames_def stateReturning_eq activations_def return_defs)

section \<open>The claims\<close>

subsection \<open>C1: at most one active deck\<close>

text \<open>
  C1, as amended. In every reachable state of the store at most one of \<open>deckA.isActive\<close>
  and \<open>deckB.isActive\<close> is true, and every step keeps it so. A step changes a deck's
  \<open>isActive\<close> only if it is the successful update of \<open>activateDeck\<close> or \<open>cleanup\<close>, and
  \<open>cleanup\<close> only clears the flag. The successful update of \<open>activateDeck\<close> makes the
  activated deck active and the other deck inactive in one update of the store.
\<close>

theorem single_active_deck:
  assumes "reachable s"
  shows "at_most_one_active s
    \<and> at_most_one_active (apply_event e s)
    \<and> (isActive (getDeck d (apply_event e s)) \<noteq> isActive (getDeck d s) \<longrightarrow>
         (\<exists>deck startMs t. e = ActivateCommit deck startMs t)
         \<or> (e = Cleanup \<and> \<not> isActive (getDeck d (apply_event e s))))
    \<and> isActive (getDeck d' (activateDeck_commit d' p n s))
    \<and> \<not> isActive (getDeck (other d') (activateDeck_commit d' p n s))"
proof -
  have inv: "at_most_one_active s" using assms by (rule reachable_at_most_one_active)
  have inv': "at_most_one_active (apply_event e s)"
    using inv by (rule step_at_most_one_active)
  have sole: "isActive (getDeck d (apply_event e s)) \<noteq> isActive (getDeck d s) \<longrightarrow>
         (\<exists>deck startMs t. e = ActivateCommit deck startMs t)
         \<or> (e = Cleanup \<and> \<not> isActive (getDeck d (apply_event e s)))"
  proof (cases "\<exists>d' p n. e = ActivateCommit d' p n")
    case True
    then show ?thesis by blast
  next
    case notCommit: False
    show ?thesis
    proof (cases "e = Cleanup")
      case True
      then show ?thesis by (simp add: getDeck_cleanup emptyDeck_facts)
    next
      case False
      with notCommit have "activeFlags (apply_event e s) = activeFlags s"
        by (intro step_flags) blast+
      then have "isActive (getDeck d (apply_event e s)) = isActive (getDeck d s)"
        by (rule activeFlags_getDeck)
      then show ?thesis by blast
    qed
  qed
  from inv inv' sole activateDeck_commit_active [of d' p n s] show ?thesis
    by (intro conjI)
qed

theorem single_active_deck_witness:
  "reachable stateActiveA \<and> at_most_one_active stateActiveA
   \<and> isActive (getDeck B (apply_event (ActivateCommit B 0 2) stateActiveA))
       \<noteq> isActive (getDeck B stateActiveA)
   \<and> at_most_one_active (apply_event (ActivateCommit B 0 2) stateActiveA)
   \<and> isActive (getDeck B (activateDeck_commit B 0 2 stateActiveA))
   \<and> \<not> isActive (getDeck A (activateDeck_commit B 0 2 stateActiveA))"
  using single_active_deck [OF reachable_stateActiveA, of "ActivateCommit B 0 2" B B 0 2]
    reachable_stateActiveA stateActiveA_eval
  by simp

text \<open>
  C1 as stated names \<open>activateDeck\<close> as the only operation that changes the flag.
  \<open>cleanup\<close> changes it too: on a reachable state with deck A active it leaves deck A
  inactive.
\<close>

theorem cleanup_resets_isActive:
  "reachable stateActiveA \<and> isActive (deckA stateActiveA)
   \<and> \<not> isActive (deckA (apply_event Cleanup stateActiveA))"
  using reachable_stateActiveA stateActiveA_eval by (simp add: cleanup_decks emptyDeck_facts)

subsection \<open>C2: the trigger check\<close>

text \<open>
  C2. In a state with at most one active deck (every reachable state is one), the trigger
  check starts a transition if and only if the trigger condition holds for deck A or for
  deck B: auto-crossfade enabled, no transition in flight, that deck the one active deck
  and holding a track, the other deck holding a prepared track, and
  \<open>0 < duration - currentTime \<le> triggerTime\<close>. When it holds for \<open>d\<close>, the check sets
  \<open>isCrossfading\<close>, the start time and the direction from \<open>d\<close> to the other deck and
  schedules the animation; when it holds for neither deck, the check changes nothing.
\<close>

theorem trigger_iff:
  assumes "at_most_one_active s"
  shows "(snd (checkAutoCrossfadeTrigger now s) \<noteq> None)
           = (triggerCondition s A \<or> triggerCondition s B)
    \<and> (triggerCondition s d \<longrightarrow> checkAutoCrossfadeTrigger now s = startedTransition d now s)
    \<and> (\<not> triggerCondition s A \<and> \<not> triggerCondition s B \<longrightarrow>
          checkAutoCrossfadeTrigger now s = (s, None))"
proof -
  have 1: "triggerCondition s d \<longrightarrow> checkAutoCrossfadeTrigger now s = startedTransition d now s"
    by (cases d) (simp_all add: trigger_A trigger_B)
  have 2: "\<not> triggerCondition s A \<and> \<not> triggerCondition s B \<longrightarrow>
          checkAutoCrossfadeTrigger now s = (s, None)"
    using assms by (simp add: trigger_none)
  have 3: "(snd (checkAutoCrossfadeTrigger now s) \<noteq> None)
           = (triggerCondition s A \<or> triggerCondition s B)"
  proof (cases "triggerCondition s A")
    case True
    then show ?thesis by (simp add: trigger_A startedTransition_def)
  next
    case nA: False
    show ?thesis
    proof (cases "triggerCondition s B")
      case True
      then show ?thesis by (simp add: trigger_B startedTransition_def)
    next
      case False
      with nA assms show ?thesis by (simp add: trigger_none)
    qed
  qed
  from 1 2 3 show ?thesis by (intro conjI)
qed

text \<open>
  With duration 180 s, trigger time 15 s and a prepared candidate, the check at 166 s starts
  the transition and the check at 160 s does not.
\<close>

theorem trigger_iff_witness:
  "at_most_one_active (statePlayingAt 166000)
   \<and> triggerCondition (statePlayingAt 166000) A
   \<and> snd (checkAutoCrossfadeTrigger 0 (statePlayingAt 166000)) \<noteq> None
   \<and> checkAutoCrossfadeTrigger 0 (statePlayingAt 166000)
        = startedTransition A 0 (statePlayingAt 166000)
   \<and> at_most_one_active (statePlayingAt 160000)
   \<and> \<not> triggerCondition (statePlayingAt 160000) A
   \<and> \<not> triggerCondition (statePlayingAt 160000) B
   \<and> checkAutoCrossfadeTrigger 0 (statePlayingAt 160000) = (statePlayingAt 160000, None)"
proof -
  note hi = trigger_iff [OF at_most_one_statePlayingAt, of 0 166000 A]
  note lo = trigger_iff [OF at_most_one_statePlayingAt, of 0 160000 A]
  from hi triggerCondition_166
  have 1: "snd (checkAutoCrossfadeTrigger 0 (statePlayingAt 166000)) \<noteq> None"
    and 2: "checkAutoCrossfadeTrigger 0 (statePlayingAt 166000)
              = startedTransition A 0 (statePlayingAt 166000)"
    by blast+
  from lo triggerCondition_160
  have 3: "checkAutoCrossfadeTrigger 0 (statePlayingAt 160000) = (statePlayingAt 160000, None)"
    by blast
  from 1 2 3 at_most_one_statePlayingAt triggerCondition_166 triggerCondition_160
  show ?thesis by (intro conjI)
qed

subsection \<open>C3: no second transition\<close>

text \<open>
  C3. While \<open>isCrossfading\<close> is true, any sequence of trigger checks and
  \<open>startAutoCrossfade\<close> calls leaves the store unchanged, in particular \<open>isCrossfading\<close>,
  \<open>crossfadeStartTime\<close> and \<open>crossfadeDirection\<close>, and starts no animation.
\<close>

theorem no_second_transition:
  assumes "isCrossfading s"
  shows "runTriggerCalls calls s = (s, [])"
proof (induction calls)
  case Nil
  show ?case by simp
next
  case (Cons c cs)
  show ?case
  proof (cases c)
    case (CheckTrigger now)
    with Cons assms show ?thesis by (simp add: checkAutoCrossfadeTrigger_in_flight)
  next
    case (StartCall f t now)
    with Cons assms show ?thesis by (simp add: startAutoCrossfade_in_flight)
  qed
qed

theorem no_second_transition_witness:
  "isCrossfading stateCrossfading
   \<and> runTriggerCalls [CheckTrigger 250, StartCall A B 300, StartCall B A 400, CheckTrigger 500]
        stateCrossfading = (stateCrossfading, [])"
  using no_second_transition
          [of stateCrossfading "[CheckTrigger 250, StartCall A B 300, StartCall B A 400, CheckTrigger 500]"]
  by (simp add: stateCrossfading_eq)

subsection \<open>C4: the handoff\<close>

text \<open>
  C4. In one transition's animation, whatever the clock readings of its frames and whatever
  steps of the store happen between them, \<open>activateDeck\<close> is invoked at most once; an
  invocation is for the candidate deck with \<open>preservePosition = false\<close>, in a frame whose
  elapsed time is at least \<open>switchTiming * duration * 1000\<close> milliseconds, and only with
  \<open>autoActivateNext\<close> set and the candidate inactive when the transition started. A frame
  of the run calls \<open>playTrack\<close> only if it invokes that activation. In the frame that
  invokes it, for a candidate holding a prepared track, \<open>playTrack\<close> is called once, with
  the candidate's track at its prepared cue point \<open>preparedStartTime\<close>, whatever the deck's
  \<open>lastPlayedPosition\<close> and \<open>currentTime\<close>; when \<open>playTrack\<close> resolves the candidate is
  active and playing at the end of the frame, with \<open>currentTime\<close> at the cue point.
\<close>

theorem handoff_at_most_once:
  "length (activations (runAnimation frames anim s)) \<le> 1
   \<and> (\<forall>(now, x) \<in> set (activations (runAnimation frames anim s)).
         x = ActivateDeckInvoked (toDeck anim) False
         \<and> now - startTime anim
              \<ge> switchTiming (settings anim) * crossfadeDuration (settings anim) * 1000
         \<and> autoActivateNext (settings anim) \<and> \<not> isActive (targetDeck anim))
   \<and> (\<forall>(now, tr) \<in> set (runAnimation frames anim s).
         filter isPlayTrackCall tr \<noteq> [] \<longrightarrow> ActivateDeckInvoked (toDeck anim) False \<in> set tr)
   \<and> (animateCrossfade clock sp reply anim s0 = Some (anim', s', tr, again)
       \<and> ActivateDeckInvoked (toDeck anim) False \<in> set tr
       \<and> track (getDeck (toDeck anim) s0) = Some t \<and> isPrepared t \<longrightarrow>
         filter isPlayTrackCall tr = [PlayTrackCall (spotifyUri t) (preparedStartTime t)]
         \<and> (fst (playTrack sp reply (spotifyUri t) (preparedStartTime t)) = Resolved \<longrightarrow>
              isActive (getDeck (toDeck anim) s') \<and> isPlaying (getDeck (toDeck anim) s')
              \<and> currentTime (getDeck (toDeck anim) s') = preparedStartTime t / 1000))"
proof -
  have 1: "length (activations (runAnimation frames anim s)) \<le> 1
   \<and> (\<forall>(now, x) \<in> set (activations (runAnimation frames anim s)).
         x = ActivateDeckInvoked (toDeck anim) False
         \<and> now - startTime anim
              \<ge> switchTiming (settings anim) * crossfadeDuration (settings anim) * 1000
         \<and> autoActivateNext (settings anim) \<and> \<not> isActive (targetDeck anim))"
    using runAnimation_activations [of anim frames s] by (simp add: handoffDue_def)
  have 2: "\<forall>(now, tr) \<in> set (runAnimation frames anim s).
         filter isPlayTrackCall tr \<noteq> [] \<longrightarrow> ActivateDeckInvoked (toDeck anim) False \<in> set tr"
    by (rule runAnimation_play_calls)
  have 3: "animateCrossfade clock sp reply anim s0 = Some (anim', s', tr, again)
       \<and> ActivateDeckInvoked (toDeck anim) False \<in> set tr
       \<and> track (getDeck (toDeck anim) s0) = Some t \<and> isPrepared t \<longrightarrow>
         filter isPlayTrackCall tr = [PlayTrackCall (spotifyUri t) (preparedStartTime t)]
         \<and> (fst (playTrack sp reply (spotifyUri t) (preparedStartTime t)) = Resolved \<longrightarrow>
              isActive (getDeck (toDeck anim) s') \<and> isPlaying (getDeck (toDeck anim) s')
              \<and> currentTime (getDeck (toDeck anim) s') = preparedStartTime t / 1000)"
  proof
    assume h: "animateCrossfade clock sp reply anim s0 = Some (anim', s', tr, again)
       \<and> ActivateDeckInvoked (toDeck anim) False \<in> set tr
       \<and> track (getDeck (toDeck anim) s0) = Some t \<and> isPrepared t"
    then have fr: "animateCrossfade clock sp reply anim s0 = Some (anim', s', tr, again)"
      by simp
    from animateCrossfade_handoff(2) [OF fr, of t] h
    show "filter isPlayTrackCall tr = [PlayTrackCall (spotifyUri t) (preparedStartTime t)]
         \<and> (fst (playTrack sp reply (spotifyUri t) (preparedStartTime t)) = Resolved \<longrightarrow>
              isActive (getDeck (toDeck anim) s') \<and> isPlaying (getDeck (toDeck anim) s')
              \<and> currentTime (getDeck (toDeck anim) s') = preparedStartTime t / 1000)"
      by blast
  qed
  from 1 2 3 show ?thesis by blast
qed

text \<open>
  The transition back from B to A, with duration 8 s and switch timing 0.75: deck A was
  last played at 42.3 s, shows 7 s, and its cue point is 5000 ms. The frames at 3000, 6000 and 8000 ms
  of elapsed time invoke the activation of deck A once, in the frame at 6000 ms, and that
  frame calls \<open>playTrack\<close> at 5000 ms.
\<close>

theorem handoff_at_most_once_witness:
  "checkAutoCrossfadeTrigger 20 stateResumable = (stateReturning, Some returnAnimation)
   \<and> toDeck returnAnimation = A
   \<and> switchTiming (settings returnAnimation) = 0.75
   \<and> crossfadeDuration (settings returnAnimation) = 8
   \<and> track (getDeck A stateReturning) = Some recuedTrack
   \<and> isPrepared recuedTrack \<and> preparedStartTime recuedTrack = 5000
   \<and> lastPlayedPosition (getDeck A stateReturning) = 42.3
   \<and> currentTime (getDeck A stateReturning) = 7
   \<and> (6020, ActivateDeckInvoked A False)
        \<in> set (activations (runAnimation returnFrames returnAnimation stateReturning))
   \<and> length (activations (runAnimation returnFrames returnAnimation stateReturning)) \<le> 1
   \<and> 6020 - startTime returnAnimation
        \<ge> switchTiming (settings returnAnimation) * crossfadeDuration (settings returnAnimation)
            * 1000
   \<and> ActivateDeckInvoked A False
        \<in> set (frameTrace (animateCrossfade 6020 readyPlayer (Response True) returnAnimation
                   stateReturning))
   \<and> filter isPlayTrackCall
        (frameTrace (animateCrossfade 6020 readyPlayer (Response True) returnAnimation
           stateReturning)) = [PlayTrackCall ''spotify:track:t1'' 5000]
   \<and> map_option (isActive \<circ> deckA)
        (frameStore (animateCrossfade 6020 readyPlayer (Response True) returnAnimation
           stateReturning)) = Some True
   \<and> map_option (currentTime \<circ> deckA)
        (frameStore (animateCrossfade 6020 readyPlayer (Response True) returnAnimation
           stateReturning)) = Some 5"
proof -
  let ?F = "animateCrossfade 6020 readyPlayer (Response True) returnAnimation stateReturning"
  have trig: "checkAutoCrossfadeTrigger 20 stateResumable = (stateReturning, Some returnAnimation)"
    by (simp add: return_trigger stateReturning_eq)
  have anim: "toDeck returnAnimation = A" "switchTiming (settings returnAnimation) = 0.75"
    "crossfadeDuration (settings returnAnimation) = 8"
    by (simp_all add: returnAnimation_def initialState_def)
  have deck: "track (getDeck A stateReturning) = Some recuedTrack"
    "lastPlayedPosition (getDeck A stateReturning) = 42.3"
    "currentTime (getDeck A stateReturning) = 7"
    by (simp_all add: stateReturning_deckA)
  have m: "(6020, ActivateDeckInvoked A False)
      \<in> set (activations (runAnimation returnFrames returnAnimation stateReturning))"
    by (simp add: return_run)
  have mk: "ActivateDeckInvoked A False \<in> set (frameTrace ?F)"
    by (simp add: return_frame)
  then obtain anim' s' tr again where F: "?F = Some (anim', s', tr, again)"
    by (cases ?F) auto
  with mk have mk': "ActivateDeckInvoked (toDeck returnAnimation) False \<in> set tr"
    by (simp add: anim(1))
  have res: "fst (playTrack readyPlayer (Response True) (spotifyUri recuedTrack)
               (preparedStartTime recuedTrack)) = Resolved"
    by (simp add: playTrack_ready readyPlayer_ready)
  note h = handoff_at_most_once [where frames = returnFrames and anim = returnAnimation
             and s = stateReturning and clock = 6020 and sp = readyPlayer
             and reply = "Response True" and ?s0.0 = stateReturning and anim' = anim'
             and s' = s' and tr = tr and again = again and t = recuedTrack]
  from h m have len: "length (activations (runAnimation returnFrames returnAnimation stateReturning)) \<le> 1"
    and time: "6020 - startTime returnAnimation
        \<ge> switchTiming (settings returnAnimation) * crossfadeDuration (settings returnAnimation)
            * 1000"
    by blast+
  from h F mk' deck(1) recuedTrack_fields(2) res anim(1)
  have calls: "filter isPlayTrackCall tr
                 = [PlayTrackCall (spotifyUri recuedTrack) (preparedStartTime recuedTrack)]"
    and act: "isActive (getDeck A s')"
    and ct: "currentTime (getDeck A s') = preparedStartTime recuedTrack / 1000"
    by simp_all
  from calls F have calls': "filter isPlayTrackCall (frameTrace ?F)
                 = [PlayTrackCall ''spotify:track:t1'' 5000]"
    by (simp add: recuedTrack_fields)
  from act F have act': "map_option (isActive \<circ> deckA) (frameStore ?F) = Some True"
    by simp
  from ct F have ct': "map_option (currentTime \<circ> deckA) (frameStore ?F) = Some 5"
    by (simp add: recuedTrack_fields)
  from trig anim deck recuedTrack_fields(2) recuedTrack_fields(4) m len time mk calls' act' ct'
  show ?thesis by (intro conjI)
qed

subsection \<open>C5: stopping a transition\<close>

text \<open>
  C5, as amended. \<open>stopAutoCrossfade\<close> clears \<open>isCrossfading\<close> and \<open>crossfadeDirection\<close>,
  resets \<open>crossfadeStartTime\<close> to 0 and stops the beat-sync effects; it leaves the decks,
  the crossfader position and the settings as they are. The animation calls it in its
  last frame, the first one at or after the full duration (for a positive duration), and
  requests no frame after that one: after this stop the store is not crossfading and the
  animation runs no further frame.
\<close>

theorem stopAutoCrossfade_clears_transition:
  "isCrossfading (fst (stopAutoCrossfade s)) = False
   \<and> crossfadeDirection (fst (stopAutoCrossfade s)) = None
   \<and> crossfadeStartTime (fst (stopAutoCrossfade s)) = 0
   \<and> deckA (fst (stopAutoCrossfade s)) = deckA s
   \<and> deckB (fst (stopAutoCrossfade s)) = deckB s
   \<and> crossfaderPosition (fst (stopAutoCrossfade s)) = crossfaderPosition s
   \<and> autoCrossfade (fst (stopAutoCrossfade s)) = autoCrossfade s
   \<and> snd (stopAutoCrossfade s) = [BeatSyncStopAll]
   \<and> (0 < crossfadeDuration (settings anim)
        \<and> crossfadeDuration (settings anim) * 1000 \<le> now - startTime anim \<longrightarrow>
       map_option isCrossfading (frameStore (animateCrossfade now sp reply anim s)) = Some False
       \<and> map_option crossfadeDirection (frameStore (animateCrossfade now sp reply anim s))
            = Some None
       \<and> length (runAnimation ((between, now, sp, reply) # rest) anim s) = 1)"
proof -
  have 1: "isCrossfading (fst (stopAutoCrossfade s)) = False
   \<and> crossfadeDirection (fst (stopAutoCrossfade s)) = None
   \<and> crossfadeStartTime (fst (stopAutoCrossfade s)) = 0
   \<and> deckA (fst (stopAutoCrossfade s)) = deckA s
   \<and> deckB (fst (stopAutoCrossfade s)) = deckB s
   \<and> crossfaderPosition (fst (stopAutoCrossfade s)) = crossfaderPosition s
   \<and> autoCrossfade (fst (stopAutoCrossfade s)) = autoCrossfade s
   \<and> snd (stopAutoCrossfade s) = [BeatSyncStopAll]"
    by (simp add: stopAutoCrossfade_def)
  have 2: "0 < crossfadeDuration (settings anim)
        \<and> crossfadeDuration (settings anim) * 1000 \<le> now - startTime anim \<longrightarrow>
       map_option isCrossfading (frameStore (animateCrossfade now sp reply anim s)) = Some False
       \<and> map_option crossfadeDirection (frameStore (animateCrossfade now sp reply anim s))
            = Some None
       \<and> length (runAnimation ((between, now, sp, reply) # rest) anim s) = 1"
  proof
    assume h: "0 < crossfadeDuration (settings anim)
        \<and> crossfadeDuration (settings anim) * 1000 \<le> now - startTime anim"
    then obtain anim' s' tr where
      f: "animateCrossfade now sp reply anim s = Some (anim', s', tr, False)"
      and c: "\<not> isCrossfading s'" "crossfadeDirection s' = None"
      using final_frame [of anim now sp reply s] by blast
    from h obtain anim2 s2 tr2 where
      g: "animateCrossfade now sp reply anim (apply_events between s)
            = Some (anim2, s2, tr2, False)"
      using final_frame [of anim now sp reply "apply_events between s"] by blast
    from f c g show "map_option isCrossfading (frameStore (animateCrossfade now sp reply anim s)) = Some False
       \<and> map_option crossfadeDirection (frameStore (animateCrossfade now sp reply anim s))
            = Some None
       \<and> length (runAnimation ((between, now, sp, reply) # rest) anim s) = 1"
      by simp
  qed
  from 1 2 show ?thesis by blast
qed

text \<open>
  The last frame of the example's animation, at 8000 ms, stops the transition, and the
  frame offered after it does not run.
\<close>

theorem stopAutoCrossfade_clears_transition_witness:
  "0 < crossfadeDuration (settings exampleAnimation)
   \<and> crossfadeDuration (settings exampleAnimation) * 1000 \<le> 8000 - startTime exampleAnimation
   \<and> isCrossfading stateCrossfading
   \<and> map_option isCrossfading
        (frameStore (animateCrossfade 8000 readyPlayer (Response True) exampleAnimation
           stateCrossfading)) = Some False
   \<and> length (runAnimation [([], 8000, readyPlayer, Response True),
                 ([], 8016, readyPlayer, Response True)] exampleAnimation stateCrossfading) = 1"
proof -
  have h: "0 < crossfadeDuration (settings exampleAnimation)
   \<and> crossfadeDuration (settings exampleAnimation) * 1000 \<le> 8000 - startTime exampleAnimation"
    by (simp add: exampleAnimation_def initialState_def)
  from stopAutoCrossfade_clears_transition [where anim = exampleAnimation and now = 8000
         and sp = readyPlayer and reply = "Response True" and s = stateCrossfading and between = "[]"
         and rest = "[([], 8016, readyPlayer, Response True)]"] h
  have "map_option isCrossfading
        (frameStore (animateCrossfade 8000 readyPlayer (Response True) exampleAnimation
           stateCrossfading)) = Some False"
    and "length (runAnimation [([], 8000, readyPlayer, Response True),
                 ([], 8016, readyPlayer, Response True)] exampleAnimation stateCrossfading) = 1"
    by blast+
  with h stateCrossfading_fields(3) show ?thesis by (intro conjI) simp_all
qed

text \<open>
  C5 as stated also has the stop cancel the pending handoff. The store keeps no handle on
  the running animation and the animation does not read \<open>isCrossfading\<close>: after the
  transition of the example is stopped, its frame at 6000 ms still invokes the activation
  of deck B, and deck B becomes active.
\<close>

theorem stale_handoff_after_stop:
  "checkAutoCrossfadeTrigger 0 (statePlayingAt 166000) = (stateCrossfading, Some exampleAnimation)
   \<and> isCrossfading stateCrossfading
   \<and> stateStopped = fst (stopAutoCrossfade stateCrossfading)
   \<and> \<not> isCrossfading stateStopped
   \<and> crossfadeDirection stateStopped = None
   \<and> \<not> isActive (deckB stateStopped)
   \<and> frameTrace (animateCrossfade 6000 readyPlayer (Response True) exampleAnimation stateStopped)
       = [RemoteSetVolume A (1 / 8), ActivateDeckInvoked B False,
          PlayTrackCall ''spotify:track:t2'' 0, RemotePlay ''spotify:track:t2'' 0]
   \<and> map_option (isActive \<circ> deckB)
        (frameStore (animateCrossfade 6000 readyPlayer (Response True) exampleAnimation
           stateStopped)) = Some True"
proof -
  have 1: "checkAutoCrossfadeTrigger 0 (statePlayingAt 166000)
             = (stateCrossfading, Some exampleAnimation)"
    by (simp add: trig166 stateCrossfading_eq)
  have 2: "\<not> isCrossfading stateStopped" "crossfadeDirection stateStopped = None"
    "\<not> isActive (deckB stateStopped)"
    by (simp_all add: stateStopped_eq statePlayingAt_eq initialState_def emptyDeck_def)
  have 3: "map_option (isActive \<circ> deckB)
        (frameStore (animateCrossfade 6000 readyPlayer (Response True) exampleAnimation
           stateStopped)) = Some True"
    using frame_after_stop(2) by (simp add: comp_def)
  from 1 2 3 frame_after_stop(1) stateCrossfading_fields(3) stateStopped_def
  show ?thesis by (intro conjI)
qed

subsection \<open>C6: resuming from the last played position\<close>



subsection \<open>C7: volume pushed to the remote player\<close>

text \<open>
  C7, as amended. \<open>setVolume\<close> pushes a volume to the remote player exactly for its own
  deck, when that deck has a track and is active, whether it is playing or not; the value
  is the clamped volume times the deck's crossfader mix. \<open>setCrossfader\<close> pushes a volume
  for a deck exactly when the deck has a track and is playing; the value is the deck's
  volume times its mix at the clamped position.
\<close>

theorem remote_volume_guards:
  "(RemoteSetVolume x g \<in> set (snd (setVolume d v s))) =
      (x = d \<and> track (getDeck d s) \<noteq> None \<and> isActive (getDeck d s)
       \<and> g = max 0 (min 1 v) * crossfaderMix d (crossfaderPosition s))
   \<and> (RemoteSetVolume x g \<in> set (snd (setCrossfader p s))) =
      (track (getDeck x s) \<noteq> None \<and> isPlaying (getDeck x s)
       \<and> g = volume (getDeck x s) * crossfaderMix x (max 0 (min 1 p)))"
proof -
  have 1: "(RemoteSetVolume x g \<in> set (snd (setVolume d v s))) =
      (x = d \<and> track (getDeck d s) \<noteq> None \<and> isActive (getDeck d s)
       \<and> g = max 0 (min 1 v) * crossfaderMix d (crossfaderPosition s))"
    unfolding setVolume_trace by auto
  have 2: "(RemoteSetVolume x g \<in> set (snd (setCrossfader p s))) =
      (track (getDeck x s) \<noteq> None \<and> isPlaying (getDeck x s)
       \<and> g = volume (getDeck x s) * crossfaderMix x (max 0 (min 1 p)))"
    unfolding setCrossfader_trace by (cases x) auto
  from 1 2 show ?thesis by (intro conjI)
qed

theorem remote_volume_guards_witness:
  "RemoteSetVolume A 0.25 \<in> set (snd (setVolume A 0.5 stateActiveA))
   \<and> RemoteSetVolume A 0.6 \<in> set (snd (setCrossfader 0.25 stateActiveA))
   \<and> RemoteSetVolume B 0.2 \<notin> set (snd (setCrossfader 0.25 stateActiveA))
   \<and> isActive (getDeck A stateActiveA) \<and> isPlaying (getDeck A stateActiveA)
   \<and> track (getDeck B stateActiveA) = None"
  using remote_volume_guards [where x = A and g = "0.25" and d = A and v = "0.5"
          and s = stateActiveA and p = "0.25"]
    remote_volume_guards [where x = A and g = "0.6" and d = A and v = "0.5"
          and s = stateActiveA and p = "0.25"]
    remote_volume_guards [where x = B and g = "0.2" and d = A and v = "0.5"
          and s = stateActiveA and p = "0.25"]
    stateActiveA_fields
  by (simp add: crossfaderMix_def)

text \<open>
  C7 as stated requires a deck to be both active and playing. \<open>setVolume\<close> on the active
  deck A, paused, still pushes its volume.
\<close>

theorem paused_deck_volume_pushed:
  "reachable statePausedA \<and> isActive (deckA statePausedA) \<and> \<not> isPlaying (deckA statePausedA)
   \<and> snd (setVolume A 0.5 statePausedA) = [RemoteSetVolume A 0.25]"
  using reachable_statePausedA statePausedA_fields
  by (simp add: setVolume_trace crossfaderMix_def)

subsection \<open>C8: failed activation\<close>

text \<open>
  C8. The claim holds where \<open>activateDeck\<close> refuses the deck or \<open>playTrack\<close> rejects
  (lemmas \<open>activateDeck_refused\<close>, \<open>activateDeck_rejected\<close> and
  \<open>reachable_no_track_not_loading\<close> above). It fails when the remote play cannot be made
  because the player is not ready: \<open>playTrack\<close> logs the error and returns normally
  without a request, and \<open>activateDeck\<close> takes that for success. On the reachable state
  with a track loaded on deck A and no deck active, \<open>activateDeck\<close> with a player that is
  not ready returns true and leaves deck A active and playing, though no play request was
  sent.
\<close>

theorem activation_succeeds_when_player_not_ready:
  "reachable stateLoadedA
   \<and> track (getDeck A stateLoadedA) = Some exampleTrack \<and> isPrepared exampleTrack
   \<and> \<not> isActive (getDeck A stateLoadedA)
   \<and> playTrack notReadyPlayer (Response True) (spotifyUri exampleTrack)
        (preparedStartTime exampleTrack) = (Resolved, [])
   \<and> fst (activateDeck A False notReadyPlayer (Response True) 1 stateLoadedA) = True
   \<and> isActive (getDeck A (fst (snd (activateDeck A False notReadyPlayer (Response True) 1
                                       stateLoadedA))))
   \<and> isPlaying (getDeck A (fst (snd (activateDeck A False notReadyPlayer (Response True) 1
                                        stateLoadedA))))
   \<and> snd (snd (activateDeck A False notReadyPlayer (Response True) 1 stateLoadedA))
        = [PlayTrackCall ''spotify:track:t1'' 0]"
proof -
  have t: "track (getDeck A stateLoadedA) = Some exampleTrack"
    and i: "\<not> isActive (getDeck A stateLoadedA)"
    by (simp_all add: stateLoadedA_def emptyDeck_def)
  note n = activateDeck_player_not_ready [OF t exampleTrack_fields(2) notReadyPlayer_not_ready,
             where p = False and reply = "Response True" and now = 1]
  have pt: "playTrack notReadyPlayer (Response True) (spotifyUri exampleTrack)
        (preparedStartTime exampleTrack) = (Resolved, [])"
    by (simp add: playTrack_not_ready notReadyPlayer_not_ready)
  have tr: "snd (snd (activateDeck A False notReadyPlayer (Response True) 1 stateLoadedA))
        = [PlayTrackCall ''spotify:track:t1'' 0]"
    by (simp add: activateDeck_def activateDeck_begin_def stateLoadedA_def emptyDeck_def
          initialState_def exampleTrack_fields startPosition_def playTrack_def
          notReadyPlayer_def Let_def)
  from reachable_stateLoadedA t exampleTrack_fields(2) i pt n(1) n(2) n(3) tr
  show ?thesis by (intro conjI)
qed

subsection \<open>C9: the crossfade curve\<close>

text \<open>
  C9. \<open>getCrossfadeValue\<close> clamps its progress argument to \<open>[0, 1]\<close> and returns the
  clamped progress for the linear curve, \<open>progress\<^sup>2 (3 - 2 progress)\<close> for the smooth curve
  and \<open>progress\<close> to the power 1.5 for the power curve; for every curve the value at 0 is 0
  and the value at 1 is 1.
\<close>

theorem getCrossfadeValue_curve:
  "getCrossfadeValue p k =
     (case k of
        Linear \<Rightarrow> max 0 (min 1 p)
      | Smooth \<Rightarrow> (max 0 (min 1 p))\<^sup>2 * (3 - 2 * max 0 (min 1 p))
      | Power \<Rightarrow> max 0 (min 1 p) powr 1.5)
   \<and> 0 \<le> max 0 (min 1 p) \<and> max 0 (min 1 p) \<le> 1
   \<and> getCrossfadeValue 0 k = 0 \<and> getCrossfadeValue 1 k = 1"
  by (cases k) (simp_all add: getCrossfadeValue_def Let_def power2_eq_square)

subsection \<open>C10: a loaded deck is prepared\<close>

text \<open>
  C10. A successful \<open>loadSpotifyTrack\<close> leaves the deck with a track that has
  \<open>isPrepared = true\<close> and \<open>preparedStartTime = startTimeMs\<close>, and \<open>activateDeck\<close> does not
  refuse that deck. In a reachable state \<open>activateDeck\<close> refuses a deck exactly when the
  deck has no track.
\<close>

theorem load_prepares_deck:
  "(loadSpotifyTrack d sp ms now s = Inr s' \<longrightarrow>
      (\<exists>t. track (getDeck d s') = Some t \<and> isPrepared t \<and> preparedStartTime t = ms)
      \<and> activateDeck_begin d p s' \<noteq> None)
   \<and> (reachable s \<longrightarrow> (activateDeck_begin d p s = None) = (track (getDeck d s) = None))"
proof -
  have 1: "loadSpotifyTrack d sp ms now s = Inr s' \<longrightarrow>
      (\<exists>t. track (getDeck d s') = Some t \<and> isPrepared t \<and> preparedStartTime t = ms)
      \<and> activateDeck_begin d p s' \<noteq> None"
  proof
    assume "loadSpotifyTrack d sp ms now s = Inr s'"
    then obtain t where t: "track (getDeck d s') = Some t \<and> isPrepared t \<and> preparedStartTime t = ms"
      using loadSpotifyTrack_track by blast
    then have "activateDeck_begin d p s' \<noteq> None" by (simp add: activateDeck_begin_Some)
    with t show "(\<exists>t. track (getDeck d s') = Some t \<and> isPrepared t \<and> preparedStartTime t = ms)
      \<and> activateDeck_begin d p s' \<noteq> None" by blast
  qed
  have 2: "reachable s \<longrightarrow> (activateDeck_begin d p s = None) = (track (getDeck d s) = None)"
    using reachable_track_prepared by (auto simp: activateDeck_begin_None)
  from 1 2 show ?thesis by (intro conjI)
qed

theorem load_prepares_deck_witness:
  "loadSpotifyTrack A exampleSpotifyTrack 0 0 initialState = Inr stateLoadedA
   \<and> track (getDeck A stateLoadedA) = Some exampleTrack
   \<and> isPrepared exampleTrack \<and> preparedStartTime exampleTrack = 0
   \<and> activateDeck_begin A False stateLoadedA \<noteq> None
   \<and> reachable initialState
   \<and> track (getDeck A initialState) = None
   \<and> activateDeck_begin A False initialState = None"
proof -
  note l = load_prepares_deck [of A exampleSpotifyTrack 0 0 initialState stateLoadedA False]
  have n: "track (getDeck A initialState) = None"
    by (simp add: initialState_def emptyDeck_def)
  from l load_example have 1: "activateDeck_begin A False stateLoadedA \<noteq> None" by blast
  from l reachable_initial n have 2: "activateDeck_begin A False initialState = None" by blast
  have 3: "track (getDeck A stateLoadedA) = Some exampleTrack"
    by (simp add: stateLoadedA_def)
  from 1 2 3 n load_example exampleTrack_fields reachable_initial show ?thesis by simp
qed

end
